theory Spec2Isabelle
  imports Complex_Main "HOL-Library.Sublist"
begin

section \<open>JavaScript strings\<close>

text \<open>
  SQL texts, step names and messages are JavaScript strings. They are modelled as
  \<^typ>\<open>string\<close>, one \<^typ>\<open>char\<close> per code unit of an ASCII text. The case mapping
  below is the ASCII part of \<^verbatim>\<open>String.prototype.toUpperCase\<close>: the letters a..z
  move to A..Z and every other code unit is kept.
\<close>

definition toUpperChar :: "char \<Rightarrow> char" where
  "toUpperChar c =
     (case map_of (zip ''abcdefghijklmnopqrstuvwxyz'' ''ABCDEFGHIJKLMNOPQRSTUVWXYZ'') c of
        Some u \<Rightarrow> u
      | None \<Rightarrow> c)"

definition toUpperCase :: "string \<Rightarrow> string" where
  "toUpperCase s = map toUpperChar s"

text \<open>
  \<^verbatim>\<open>s.includes(pat)\<close>: some position of \<open>s\<close> starts an occurrence of \<open>pat\<close>. The
  scan tries every position from the left, the end of the text included (where only the
  empty pattern occurs).
\<close>

fun str_includes :: "string \<Rightarrow> string \<Rightarrow> bool" where
  "str_includes [] pat = (pat = [])"
| "str_includes (c # cs) pat = (prefix pat (c # cs) \<or> str_includes cs pat)"

section \<open>helpers.ts: the safety filter\<close>

text \<open>
  \<^verbatim>\<open>
  export function isDangerousQuery(query: string) {
    return (
      query.toUpperCase().includes("INSERT") ||
      query.toUpperCase().includes("UPSERT") ||
      query.toUpperCase().includes("DROP") ||
      query.toUpperCase().includes("DELETE") ||
      query.toUpperCase().includes("ALTER") ||
      query.toUpperCase().includes("CREATE") ||
      query.toUpperCase().includes("GRANT") ||
      query.toUpperCase().includes("REVOKE") ||
      query.toUpperCase().includes("REINDEX")
    );
  }
  \<close>
\<close>

definition isDangerousQuery :: "string \<Rightarrow> bool" where
  "isDangerousQuery query =
     (str_includes (toUpperCase query) ''INSERT'' \<or>
      str_includes (toUpperCase query) ''UPSERT'' \<or>
      str_includes (toUpperCase query) ''DROP'' \<or>
      str_includes (toUpperCase query) ''DELETE'' \<or>
      str_includes (toUpperCase query) ''ALTER'' \<or>
      str_includes (toUpperCase query) ''CREATE'' \<or>
      str_includes (toUpperCase query) ''GRANT'' \<or>
      str_includes (toUpperCase query) ''REVOKE'' \<or>
      str_includes (toUpperCase query) ''REINDEX'')"

text \<open>The nine denylisted verbs, as the claim lists them.\<close>

definition denylist :: "string list" where
  "denylist = [''INSERT'', ''UPSERT'', ''DROP'', ''DELETE'', ''ALTER'', ''CREATE'',
               ''GRANT'', ''REVOKE'', ''REINDEX'']"

section \<open>db.ts: the identifier quoter\<close>

text \<open>
  \<^verbatim>\<open>enforceCaseSensitivity\<close> is a chain of six textual rewrites. The two fixed sets are
  those of the source (\<open>HAVING\<close> stands twice in the source's set literal).
\<close>

definition sqlKeywords :: "string list" where
  "sqlKeywords =
     [''SELECT'', ''FROM'', ''WHERE'', ''AND'', ''OR'', ''IN'', ''ORDER'', ''BY'', ''ASC'',
      ''DESC'', ''LIMIT'', ''TRUE'', ''FALSE'', ''NULL'', ''NOT'', ''LIKE'', ''ILIKE'',
      ''GROUP'', ''HAVING'', ''JOIN'', ''LEFT'', ''RIGHT'', ''INNER'', ''OUTER'', ''ON'',
      ''AS'', ''CASE'', ''WHEN'', ''THEN'', ''ELSE'', ''END'', ''INTERVAL'', ''DISTINCT'',
      ''BETWEEN'', ''EXISTS'', ''IS'', ''SET'', ''UPDATE'', ''DELETE'', ''INSERT'',
      ''VALUES'', ''CREATE'', ''ALTER'', ''DROP'', ''TABLE'', ''VIEW'', ''INDEX'', ''UNION'',
      ''EXCEPT'', ''INTERSECT'', ''ALL'', ''ANY'', ''SOME'', ''COALESCE'', ''GREATEST'',
      ''LEAST'', ''HAVING'', ''OFFSET'', ''FETCH'', ''WITH'', ''RECURSIVE'', ''WINDOW'',
      ''NULLS'', ''LAST'', ''CROSS'']"

definition functionNames :: "string list" where
  "functionNames =
     [''NOW'', ''CURRENT_TIMESTAMP'', ''CURRENT_DATE'', ''CURRENT_TIME'', ''DATE_PART'',
      ''DATE_TRUNC'', ''DATE'', ''COUNT'', ''SUM'', ''AVG'', ''MAX'', ''MIN'', ''ROUND'',
      ''CEIL'', ''FLOOR'', ''ABS'', ''LENGTH'', ''LOWER'', ''UPPER'', ''TRIM'', ''SUBSTRING'',
      ''POSITION'', ''REPLACE'', ''CHAR_LENGTH'', ''EXTRACT'']"

text \<open>The double quote, the single quote and the percent sign.\<close>

abbreviation dq :: char where "dq \<equiv> CHR 0x22"
abbreviation sq :: char where "sq \<equiv> CHR 0x27"
abbreviation pct :: char where "pct \<equiv> CHR 0x25"

text \<open>
  The character classes of the first regular expression,
  \<^verbatim>\<open>/\b([a-zA-Z_][a-zA-Z0-9_]*)\b/g\<close>: \<open>isIdentStart\<close> is \<^verbatim>\<open>[a-zA-Z_]\<close> and
  \<open>isWordChar\<close> is \<^verbatim>\<open>[a-zA-Z0-9_]\<close>, which is also the word class of \<^verbatim>\<open>\b\<close>.
\<close>

definition isIdentStart :: "char \<Rightarrow> bool" where
  "isIdentStart c \<longleftrightarrow>
     c \<in> set ''abcdefghijklmnopqrstuvwxyzABCDEFGHIJKLMNOPQRSTUVWXYZ_''"

definition isWordChar :: "char \<Rightarrow> bool" where
  "isWordChar c \<longleftrightarrow>
     c \<in> set ''abcdefghijklmnopqrstuvwxyzABCDEFGHIJKLMNOPQRSTUVWXYZ_0123456789''"

text \<open>
  The replacement callback of the first stage:
  \<^verbatim>\<open>
  (match) => {
    if (sqlKeywords.has(match.toUpperCase()) || functionNames.has(match.toUpperCase())) {
      return match; // Leave SQL keywords & functions as-is
    }
    return `"${match}"`; // Quote column & table names
  }
  \<close>
\<close>

definition quoteMatch :: "string \<Rightarrow> string" where
  "quoteMatch match =
     (if toUpperCase match \<in> set sqlKeywords \<or> toUpperCase match \<in> set functionNames
      then match
      else dq # match @ [dq])"

text \<open>
  The global replace of the first stage, scanning from the left. \<open>prevWord\<close> tells
  whether the code unit before the current position is a word character. A match starts
  at a letter or underscore that stands at a word boundary, and takes the whole run of
  word characters (the star is greedy, and the closing \<^verbatim>\<open>\b\<close> holds only at the end
  of the run); the scan resumes behind it. Anywhere else the code unit is copied. A run
  that begins with a digit is therefore copied whole.
\<close>

function quoteBareTokens :: "bool \<Rightarrow> string \<Rightarrow> string" where
  "quoteBareTokens prevWord [] = []"
| "quoteBareTokens prevWord (c # cs) =
     (if isIdentStart c \<and> \<not> prevWord
      then quoteMatch (c # takeWhile isWordChar cs) @
           quoteBareTokens True (dropWhile isWordChar cs)
      else c # quoteBareTokens (isWordChar c) cs)"
  by pat_completeness auto
termination
  by (relation "measure (\<lambda>(p, s). length s)")
     (auto simp: length_dropWhile_le less_Suc_eq_le)

text \<open>
  \<^verbatim>\<open>s.replaceAll(pattern, replacement)\<close> for a pattern of two code units \<open>a b\<close>:
  occurrences are found from the left and do not overlap.
\<close>

fun replaceAll2 :: "char \<Rightarrow> char \<Rightarrow> string \<Rightarrow> string \<Rightarrow> string" where
  "replaceAll2 a b rep (x # y # zs) =
     (if x = a \<and> y = b then rep @ replaceAll2 a b rep zs
      else x # replaceAll2 a b rep (y # zs))"
| "replaceAll2 a b rep zs = zs"

text \<open>\<^verbatim>\<open>match.replaceAll('"', "")\<close>, the callback of the last two stages.\<close>

definition stripQuotes :: "string \<Rightarrow> string" where
  "stripQuotes match = filter (\<lambda>c. c \<noteq> dq) match"

text \<open>
  \<^verbatim>\<open>/%(.+?)%/\<close> tried right behind an opening percent sign: the dot takes one code
  unit that is no line terminator, then as few more as possible up to the next percent
  sign. The result is the group and the text behind the closing percent sign.
\<close>

definition isLineTerminator :: "char \<Rightarrow> bool" where
  "isLineTerminator c \<longleftrightarrow> c = CHR 0x0A \<or> c = CHR 0x0D"

definition wildcardMatch :: "string \<Rightarrow> (string \<times> string) option" where
  "wildcardMatch cs =
     (case cs of
        [] \<Rightarrow> None
      | d # ds \<Rightarrow>
          if isLineTerminator d then None
          else (case dropWhile (\<lambda>x. x \<noteq> pct \<and> \<not> isLineTerminator x) ds of
                  [] \<Rightarrow> None
                | e # rest \<Rightarrow>
                    if e = pct
                    then Some (d # takeWhile (\<lambda>x. x \<noteq> pct \<and> \<not> isLineTerminator x) ds, rest)
                    else None))"

lemma wildcardMatch_shorter:
  "wildcardMatch cs = Some (body, rest) \<Longrightarrow> length rest < length cs"
proof -
  assume m: "wildcardMatch cs = Some (body, rest)"
  then obtain d ds where cs: "cs = d # ds"
    by (cases cs) (auto simp: wildcardMatch_def)
  let ?P = "\<lambda>x. x \<noteq> pct \<and> \<not> isLineTerminator x"
  from m cs obtain e where "dropWhile ?P ds = e # rest"
    by (auto simp: wildcardMatch_def split: if_splits list.splits)
  then have "length rest < length (dropWhile ?P ds)" by simp
  also have "\<dots> \<le> length ds" by (rule length_dropWhile_le)
  finally show ?thesis using cs by simp
qed

text \<open>\<^verbatim>\<open>.replaceAll(/%(.+?)%/g, (match) => match.replaceAll('"', ""))\<close>\<close>

function unquoteWildcards :: "string \<Rightarrow> string" where
  "unquoteWildcards [] = []"
| "unquoteWildcards (c # cs) =
     (if c = pct
      then (case wildcardMatch cs of
              Some (body, rest) \<Rightarrow> pct # stripQuotes body @ pct # unquoteWildcards rest
            | None \<Rightarrow> c # unquoteWildcards cs)
      else c # unquoteWildcards cs)"
  by pat_completeness auto
termination
  by (relation "measure length") (auto dest: wildcardMatch_shorter)

text \<open>
  \<^verbatim>\<open>/'([^']+)'/\<close> tried right behind an opening single quote: one or more code units
  other than the single quote, then a single quote.
\<close>

definition literalMatch :: "string \<Rightarrow> (string \<times> string) option" where
  "literalMatch cs =
     (case dropWhile (\<lambda>x. x \<noteq> sq) cs of
        [] \<Rightarrow> None
      | e # rest \<Rightarrow>
          if takeWhile (\<lambda>x. x \<noteq> sq) cs = [] then None
          else Some (takeWhile (\<lambda>x. x \<noteq> sq) cs, rest))"

lemma literalMatch_shorter:
  "literalMatch cs = Some (body, rest) \<Longrightarrow> length rest < length cs"
proof -
  assume m: "literalMatch cs = Some (body, rest)"
  let ?P = "\<lambda>x. x \<noteq> sq"
  from m obtain e where "dropWhile ?P cs = e # rest"
    by (auto simp: literalMatch_def split: if_splits list.splits)
  then have "length rest < length (dropWhile ?P cs)" by simp
  also have "\<dots> \<le> length cs" by (rule length_dropWhile_le)
  finally show ?thesis .
qed

text \<open>\<^verbatim>\<open>.replace(/'([^']+)'/g, (match) => match.replaceAll('"', ""))\<close>\<close>

function unquoteLiterals :: "string \<Rightarrow> string" where
  "unquoteLiterals [] = []"
| "unquoteLiterals (c # cs) =
     (if c = sq
      then (case literalMatch cs of
              Some (body, rest) \<Rightarrow> sq # stripQuotes body @ sq # unquoteLiterals rest
            | None \<Rightarrow> c # unquoteLiterals cs)
      else c # unquoteLiterals cs)"
  by pat_completeness auto
termination
  by (relation "measure length") (auto dest: literalMatch_shorter)

text \<open>
  \<^verbatim>\<open>
  const enforcedQuery = query
    .replaceAll(/\b([a-zA-Z_][a-zA-Z0-9_]*)\b/g, (match) => { ... })
    .replaceAll(`'"`, "'")
    .replaceAll(`"'`, "'")
    .replaceAll('""', '"')
    .replaceAll(/%(.+?)%/g, (match) => match.replaceAll('"', ""))
    .replace(/'([^']+)'/g, (match) => match.replaceAll('"', ""));
  return enforcedQuery;
  \<close>
\<close>

definition enforceCaseSensitivity :: "string \<Rightarrow> string" where
  "enforceCaseSensitivity query =
     unquoteLiterals
       (unquoteWildcards
          (replaceAll2 dq dq [dq]
             (replaceAll2 dq sq [sq]
                (replaceAll2 sq dq [sq]
                   (quoteBareTokens False query)))))"

section \<open>Values, failures and effects\<close>

text \<open>
  The query executor takes \<^verbatim>\<open>sqlQuery: any\<close>. The values it can tell apart are
  modelled: \<^verbatim>\<open>null\<close>, \<^verbatim>\<open>undefined\<close>, strings, numbers, booleans and plain
  objects (which have no \<^verbatim>\<open>toUpperCase\<close> method).
\<close>

datatype js_value = JNull | JUndefined | JStr string | JNum int | JBool bool | JObject

text \<open>JavaScript truthiness, as \<^verbatim>\<open>!query.sqlQuery\<close> tests it.\<close>

fun truthy :: "js_value \<Rightarrow> bool" where
  "truthy JNull = False"
| "truthy JUndefined = False"
| "truthy (JStr s) = (s \<noteq> [])"
| "truthy (JNum n) = (n \<noteq> 0)"
| "truthy (JBool b) = b"
| "truthy JObject = True"

text \<open>
  What a rejected promise or a \<^verbatim>\<open>throw\<close> carries. \<open>TypeError\<close> is raised by the
  language itself; \<open>Failure message text\<close> is whatever an outside collaborator threw (the
  database driver, a model call, the brokerage API): its \<^verbatim>\<open>message\<close> property (empty
  when absent) and the text \<^verbatim>\<open>String(err)\<close> gives.
\<close>

datatype thrown = TypeError string | Failure string string

text \<open>\<^verbatim>\<open>String(err?.message || err)\<close>\<close>

fun errorText :: "thrown \<Rightarrow> string" where
  "errorText (TypeError m) = (if m \<noteq> [] then m else ''TypeError'')"
| "errorText (Failure m s) = (if m \<noteq> [] then m else s)"

text \<open>
  A row the database returns is a key-value record. The evidence sequence of a turn
  holds such rows, the synthetic rows the executor adds, the sentinel string of an empty
  result, and (after the fallback of the route) ticker matches.
\<close>

type_synonym db_row = "(string \<times> string) list"

datatype asset_type = Stock | Etf | Currency | Commodity | Index | Crypto

record ticker_match =
  ticker :: string
  name :: string
  instrumentId :: int
  assetType :: "asset_type option"

datatype comparison_row =
    ReasoningRow string
  | ErrorRow string string
  | DataRow db_row
  | TextRow string
  | TickerRow ticker_match

text \<open>
  The status lines written to the response stream. \<open>StepFinish stepName success text\<close>
  is \<^verbatim>\<open>{type: "stateMessage", subtype: "stepFinish", stepName, success, text}\<close>;
  the text \<^verbatim>\<open>`Data retrieved - ${results.length} results`\<close> is kept as its count.
  \<open>AnswerChunk\<close> is a fragment of the final answer relayed to the stream. The status
  lines of the other stages take no part in the properties below and are left out.
\<close>

datatype status_text = Text string | DataRetrieved nat

datatype state_message = StepFinish string bool status_text | AnswerChunk string

text \<open>
  schema.ts: the classification of a query, produced once per turn by the first model
  call (\<open>reasoning\<close> is named \<open>classificationReasoning\<close> here).
\<close>

record classification =
  classificationReasoning :: string
  reasoningInSimpleLanguageAddressedAtUser :: string
  isAboutUserPortfolio :: bool
  isAboutStockFundamentals :: bool
  isStockIndustryRelevant :: bool
  isAboutETFs :: bool
  isAboutCurrenciesOrCommoditiesOrIndices :: bool
  isAboutCrypto :: bool
  isAboutNews :: bool
  isAboutEarningsDates :: bool
  isAboutDividendDates :: bool
  isAboutInvestors :: bool
  isAboutSmartPortfolios :: bool
  isAboutAssetPricesOrPerformance :: bool
  userWantsToTradeAnAsset :: bool
  possibleAssetNamesOrTickers :: "string list"
  isAboutEarningsCallsSummariesOrRevenueSegmentation :: bool
  isAboutCorporateGuidanceOrStrategicOutlook :: bool
  isAboutImportantCEOs :: bool
  previousRelevantTickers :: "string list"

text \<open>
  The brokerage's portfolio summary. A weight (\<^verbatim>\<open>valuePctUnrealized\<close>) is what the
  JSON of the response holds for it: a number, taken as the rational it denotes,
  \<^verbatim>\<open>null\<close>, or nothing at all (reading the field gives \<^verbatim>\<open>undefined\<close>).
  \<open>toNumber\<close> is the number JavaScript compares and subtracts with: \<^verbatim>\<open>null\<close> counts
  as \<open>0\<close>, and \<^verbatim>\<open>undefined\<close> as \<^verbatim>\<open>NaN\<close> (\<open>None\<close>). \<open>None\<close> for \<open>positions\<close>
  or \<open>socialTrades\<close> is an absent field.
\<close>

datatype json_number = JsonNumber rat | JsonNull | JsonAbsent

fun toNumber :: "json_number \<Rightarrow> rat option" where
  "toNumber (JsonNumber v) = Some v"
| "toNumber JsonNull = Some 0"
| "toNumber JsonAbsent = None"

record position =
  positionInstrumentId :: int
  valuePctUnrealized :: json_number

record social_trade =
  parentUsername :: string
  tradeValuePctUnrealized :: json_number

record portfolio_summary =
  positions :: "position list option"
  socialTrades :: "social_trade list option"

text \<open>
  Rows of the catalog views that enrich a position (keyed by \<^verbatim>\<open>instrumentId\<close>) or a
  copied investor (keyed by \<^verbatim>\<open>userName\<close>), and the \<^verbatim>\<open>{data, error}\<close> pair a catalog
  query answers with.
\<close>

record catalog_row =
  rowInstrumentId :: int
  rowColumns :: db_row

record investor_row =
  userName :: string
  investorColumns :: db_row

record 'r query_result =
  data :: "'r list option"
  error :: "string option"

text \<open>
  A merged portfolio entry: the position or the copy relationship, the catalog row
  spread over it (if one was found), and the \<^verbatim>\<open>portfolioWeight\<close> computed for it.
  \<^verbatim>\<open>getUserPortfolio\<close> returns an array of such entries, or of one string.
\<close>

datatype holding =
    PositionHolding position "catalog_row option"
  | TradeHolding social_trade "investor_row option"

record portfolio_entry =
  holding :: holding
  portfolioWeight :: json_number

datatype portfolio_item = NoDataNote string | Entry portfolio_entry

text \<open>What the final model call is given (the evidence part of its instructions).\<close>

record synthesis_input =
  googleSearchResult :: "string option"
  comparisonData :: "comparison_row list"
  portfolioData :: "portfolio_item list"
  portfolioAnalysisContent :: string
  tradeIntent :: bool
  additionalData :: "string option"

text \<open>
  The effects the properties speak about: the lines written to the stream, the texts
  sent to the database connection (\<^verbatim>\<open>client.query\<close>), the lookups sent to the
  instrument catalog (asset classes and the \<^verbatim>\<open>or\<close> filter), and the evidence handed
  to the final model call.
\<close>

record world =
  written :: "state_message list"
  executed :: "string list"
  catalogLookups :: "(int list \<times> string) list"
  synthesized :: "synthesis_input list"

definition writerWrite :: "state_message \<Rightarrow> world \<Rightarrow> world" where
  "writerWrite m w = w\<lparr>written := written w @ [m]\<rparr>"

text \<open>
  \<^verbatim>\<open>Promise.all\<close> over settled outcomes: the array of values when every promise
  fulfils, a rejection when one rejects. Which rejection wins depends on the order of
  settlement; the model takes the first in array order (with a single rejection there is
  no choice).
\<close>

fun promiseAll :: "(thrown + 'a) list \<Rightarrow> thrown + 'a list" where
  "promiseAll [] = Inr []"
| "promiseAll (Inl e # rs) = Inl e"
| "promiseAll (Inr v # rs) = (case promiseAll rs of Inl e \<Rightarrow> Inl e | Inr vs \<Rightarrow> Inr (v # vs))"

section \<open>db.ts: running one query\<close>

text \<open>
  \<^verbatim>\<open>
  const client = await pool.connect();
  try {
    const enforcedQuery = enforceCaseSensitivity(text);
    const result = await client.query(enforcedQuery, params);
    const output = result.rows.length === 0
      ? ["Above query successful but no results were returned, probably because there are no results that match the criteria"]
      : result.rows;
    return output;
  } catch (error) { ...; throw error; } finally { client.release(); }
  \<close>
  The database is a parameter: \<open>db text\<close> is the outcome of running \<open>text\<close>.
\<close>

type_synonym database = "string \<Rightarrow> thrown + db_row list"

definition noResultsText :: string where
  "noResultsText = ''Above query successful but no results were returned, probably because there are no results that match the criteria''"

definition dbQueryWithLog ::
  "database \<Rightarrow> string \<Rightarrow> world \<Rightarrow> (thrown + comparison_row list) \<times> world" where
  "dbQueryWithLog db text w =
     (let enforcedQuery = enforceCaseSensitivity text;
          w' = w\<lparr>executed := executed w @ [enforcedQuery]\<rparr>
      in case db enforcedQuery of
           Inl err \<Rightarrow> (Inl err, w')
         | Inr rows \<Rightarrow>
             (Inr (if length rows = 0 then [TextRow noResultsText] else map DataRow rows), w'))"

section \<open>sql-request.ts: the query executor\<close>

record candidate_query =
  sqlQuery :: js_value
  reasoning :: string
  stepName :: string

text \<open>
  \<^verbatim>\<open>typeof results[0] === "object"\<close> on the rows of one query: true of records, false
  of the sentinel string.
\<close>

fun isObjectRow :: "comparison_row \<Rightarrow> bool" where
  "isObjectRow (TextRow s) = False"
| "isObjectRow r = True"

definition finishStatus :: "string \<Rightarrow> comparison_row list \<Rightarrow> state_message" where
  "finishStatus step results =
     StepFinish step
       (length results > 0 \<and> isObjectRow (hd results))
       (if length results > 0
        then (case hd results of
                TextRow s \<Rightarrow> Text s
              | _ \<Rightarrow> DataRetrieved (length results))
        else Text ''No data found'')"

text \<open>
  The callback \<^verbatim>\<open>async (query) => { ... }\<close> mapped over \<^verbatim>\<open>allQueries\<close>. \<open>writer\<close>
  tells whether a writer was passed. In the second guard, a value that is not a string
  reaches \<^verbatim>\<open>isDangerousQuery(query.sqlQuery)\<close> when the status text is computed,
  where \<^verbatim>\<open>query.toUpperCase\<close> is not a function.
\<close>

definition executeQuery ::
  "bool \<Rightarrow> database \<Rightarrow> candidate_query \<Rightarrow> world \<Rightarrow> (thrown + comparison_row list) \<times> world" where
  "executeQuery writer db query w =
     (if \<not> truthy (sqlQuery query) then
        (Inr [],
         if writer then writerWrite (StepFinish (stepName query) False (Text ''No query to execute'')) w
         else w)
      else
        (case sqlQuery query of
           JStr s \<Rightarrow>
             if isDangerousQuery s then
               (Inr [],
                if writer
                then writerWrite (StepFinish (stepName query) False
                              (Text ''Query is not safe to execute'')) w
                else w)
             else
               (case dbQueryWithLog db s w of
                  (Inl err, w1) \<Rightarrow>
                    (let w2 = (if writer
                               then writerWrite (StepFinish (stepName query) False
                                             (Text (errorText err))) w1
                               else w1);
                         results = [ErrorRow (reasoning query) (errorText err)];
                         w3 = (if writer then writerWrite (finishStatus (stepName query) results) w2
                               else w2)
                     in (Inr (ReasoningRow (reasoning query) # results), w3))
                | (Inr results, w1) \<Rightarrow>
                    (let w3 = (if writer then writerWrite (finishStatus (stepName query) results) w1
                               else w1)
                     in (Inr (ReasoningRow (reasoning query) # results), w3)))
         | _ \<Rightarrow>
             if writer then (Inl (TypeError ''query.toUpperCase is not a function''), w)
             else (Inr [], w)))"

text \<open>
  The callbacks of \<^verbatim>\<open>allQueries.map(async ...)\<close> all run, whatever their outcomes;
  their effects are recorded in dispatch order.
\<close>

fun runAll ::
  "('q \<Rightarrow> world \<Rightarrow> 'r \<times> world) \<Rightarrow> 'q list \<Rightarrow> world \<Rightarrow> 'r list \<times> world" where
  "runAll f [] w = ([], w)"
| "runAll f (q # qs) w =
     (case f q w of (r, w1) \<Rightarrow> (case runAll f qs w1 of (rs, w2) \<Rightarrow> (r # rs, w2)))"

text \<open>\<^verbatim>\<open>(await Promise.all(allQueries.map(async (query) => ...))).flat() || []\<close>\<close>

definition generateComparisonDataSqlQueriesResponse ::
  "bool \<Rightarrow> database \<Rightarrow> candidate_query list \<Rightarrow> world \<Rightarrow>
     (thrown + comparison_row list) \<times> world" where
  "generateComparisonDataSqlQueriesResponse writer db allQueries w =
     (case runAll (executeQuery writer db) allQueries w of
        (outcomes, w') \<Rightarrow>
          (case promiseAll outcomes of
             Inl e \<Rightarrow> (Inl e, w')
           | Inr results \<Rightarrow> (Inr (concat results), w')))"

section \<open>sql-request.ts: the ticker resolver\<close>

text \<open>
  helpers.ts: \<^verbatim>\<open>ASSET_TYPE_MAP\<close>. A code outside the table has no tag
  (\<^verbatim>\<open>undefined\<close>).
\<close>

definition ASSET_TYPE_MAP :: "int \<Rightarrow> asset_type option" where
  "ASSET_TYPE_MAP code =
     (if code = 1 then Some Currency
      else if code = 2 then Some Commodity
      else if code = 4 then Some Index
      else if code = 5 then Some Stock
      else if code = 6 then Some Etf
      else if code = 10 then Some Crypto
      else None)"

record instrument =
  instrumentInstrumentId :: int
  instrumentName :: string
  tickerEtoro :: string
  assetClassId :: int

text \<open>
  The instrument catalog is a parameter: \<open>catalog classes filter\<close> is the \<^verbatim>\<open>data\<close> of
  the lookup restricted to the asset classes and to the \<^verbatim>\<open>or\<close> filter (the empty text
  when no filter is set), \<open>None\<close> when the lookup gives no data.
\<close>

type_synonym catalog = "int list \<Rightarrow> string \<Rightarrow> instrument list option"

definition relevantAssetTypes :: "classification \<Rightarrow> int list" where
  "relevantAssetTypes classification =
     (if isAboutStockFundamentals classification \<or> isAboutNews classification \<or>
         isAboutEarningsDates classification \<or> isAboutDividendDates classification
      then [5] else []) @
     (if isAboutETFs classification \<or> isAboutDividendDates classification then [6] else []) @
     (if isAboutCurrenciesOrCommoditiesOrIndices classification then [1, 2, 4] else []) @
     (if isAboutCrypto classification \<or> isAboutNews classification then [10] else []) @
     (if userWantsToTradeAnAsset classification \<or>
         isAboutAssetPricesOrPerformance classification \<or> isAboutInvestors classification
      then [1, 2, 4, 5, 6, 10] else [])"

text \<open>
  \<^verbatim>\<open>orString += `or(name.phfts(english).${term},tickerEtoro.phfts(english).${term}),`\<close>
  for every term.
\<close>

definition orString :: "string list \<Rightarrow> string" where
  "orString terms =
     concat (map (\<lambda>term. ''or(name.phfts(english).'' @ term @
                          '',tickerEtoro.phfts(english).'' @ term @ ''),'') terms)"

definition toTickerMatch :: "instrument \<Rightarrow> ticker_match" where
  "toTickerMatch i =
     \<lparr>ticker = tickerEtoro i, name = instrumentName i,
      instrumentId = instrumentInstrumentId i,
      assetType = ASSET_TYPE_MAP (assetClassId i)\<rparr>"

definition generateTickersExtractionQueriesResponse ::
  "catalog \<Rightarrow> classification \<Rightarrow> bool \<Rightarrow> world \<Rightarrow> ticker_match list \<times> world" where
  "generateTickersExtractionQueriesResponse catalog classification wantsLogs w =
     (if length (possibleAssetNamesOrTickers classification) = 0 \<and>
         length (previousRelevantTickers classification) = 0 \<and>
         \<not> userWantsToTradeAnAsset classification
      then ([], w)
      else
        (let ors = orString (possibleAssetNamesOrTickers classification @
                             previousRelevantTickers classification);
             filter = (if length ors > 0 then butlast ors else []);
             w' = w\<lparr>catalogLookups :=
                      catalogLookups w @ [(relevantAssetTypes classification, filter)]\<rparr>
         in case map_option (take 50) (catalog (relevantAssetTypes classification) filter) of
              None \<Rightarrow> ([], w')
            | Some matchedInstruments \<Rightarrow> (map toTickerMatch matchedInstruments, w')))"

section \<open>helpers.ts: the portfolio fetcher\<close>

text \<open>
  The brokerage API and the four catalog views are parameters: the outcome of the fetch
  for a user name, and the answer of each view to its \<^verbatim>\<open>in\<close> filter.
\<close>

record portfolio_sources =
  portfolioSummary :: "string \<Rightarrow> thrown + portfolio_summary"
  fundamentals_view :: "int list \<Rightarrow> catalog_row query_result"
  instruments :: "int list \<Rightarrow> catalog_row query_result"
  popular_investors_fundamentals :: "string list \<Rightarrow> investor_row query_result"
  etf_fundamentals_view :: "int list \<Rightarrow> catalog_row query_result"

text \<open>\<^verbatim>\<open>rows?.find((d) => d.instrumentId === position.instrumentId)\<close>\<close>

definition findRow :: "catalog_row query_result \<Rightarrow> position \<Rightarrow> catalog_row option" where
  "findRow result p =
     (case data result of
        None \<Rightarrow> None
      | Some rows \<Rightarrow> find (\<lambda>d. rowInstrumentId d = positionInstrumentId p) rows)"

definition findInvestor :: "investor_row query_result \<Rightarrow> social_trade \<Rightarrow> investor_row option" where
  "findInvestor result t =
     (case data result of
        None \<Rightarrow> None
      | Some rows \<Rightarrow> find (\<lambda>d. userName d = parentUsername t) rows)"

text \<open>\<^verbatim>\<open>fundamentalsData || instrumentsData || etfsData\<close>\<close>

definition orElse :: "'a option \<Rightarrow> 'a option \<Rightarrow> 'a option" where
  "orElse a b = (case a of Some x \<Rightarrow> Some x | None \<Rightarrow> b)"

text \<open>
  The weight of a merged entry. An entry made from a position carries its
  \<^verbatim>\<open>instrumentId\<close>; when that is truthy the weight is that of the first position with
  the same id, otherwise the copy relationships are searched for the entry's
  \<^verbatim>\<open>parentUsername\<close>, which a position does not have. An entry made from a copy
  relationship has no \<^verbatim>\<open>instrumentId\<close> and takes the weight of the first relationship
  with its \<^verbatim>\<open>parentUsername\<close>.
\<close>

fun weightOf :: "position list \<Rightarrow> social_trade list \<Rightarrow> holding \<Rightarrow> json_number" where
  "weightOf ps ts (PositionHolding p r) =
     (if positionInstrumentId p \<noteq> 0
      then (case find (\<lambda>q. positionInstrumentId q = positionInstrumentId p) ps of
              Some q \<Rightarrow> valuePctUnrealized q
            | None \<Rightarrow> JsonAbsent)
      else JsonAbsent)"
| "weightOf ps ts (TradeHolding t r) =
     (case find (\<lambda>u. parentUsername u = parentUsername t) ts of
        Some u \<Rightarrow> tradeValuePctUnrealized u
      | None \<Rightarrow> JsonAbsent)"

text \<open>
  \<^verbatim>\<open>position.portfolioWeight > minPortfolioWeight\<close>: the comparison is made on
  numbers, so a \<^verbatim>\<open>null\<close> weight compares as \<open>0\<close> and a missing weight
  (\<^verbatim>\<open>NaN\<close>) compares false.
\<close>

definition aboveWeight :: "rat \<Rightarrow> portfolio_entry \<Rightarrow> bool" where
  "aboveWeight minPortfolioWeight e =
     (case toNumber (portfolioWeight e) of
        Some v \<Rightarrow> v > minPortfolioWeight
      | None \<Rightarrow> False)"

text \<open>
  \<^verbatim>\<open>(a.portfolioWeight || 0)\<close>: a number other than zero stays, and zero,
  \<^verbatim>\<open>null\<close> and \<^verbatim>\<open>undefined\<close> give \<open>0\<close>.
\<close>

definition weightOrZero :: "portfolio_entry \<Rightarrow> rat" where
  "weightOrZero e =
     (case portfolioWeight e of
        JsonNumber v \<Rightarrow> v
      | JsonNull \<Rightarrow> 0
      | JsonAbsent \<Rightarrow> 0)"

definition noPortfolioText :: string where
  "noPortfolioText = ''No portfolio data to analyze since portfolio is private or empty''"

text \<open>
  \<^verbatim>\<open>getUserPortfolio(username, minPortfolioWeight = 0.3, maxPositions = 50)\<close>.
  \<^verbatim>\<open>Array.prototype.sort\<close> is stable, and the comparator
  \<^verbatim>\<open>(a, b) => (b.portfolioWeight || 0) - (a.portfolioWeight || 0)\<close> orders by descending
  weight: this is the stable sort on the negated weight. \<open>maxPositions\<close> is a count, so
  \<^verbatim>\<open>slice(0, maxPositions)\<close> keeps that many leading entries. When the summary has
  positions but no \<^verbatim>\<open>socialTrades\<close>, \<^verbatim>\<open>data.socialTrades.map\<close> throws.
\<close>

definition getUserPortfolio ::
  "portfolio_sources \<Rightarrow> string \<Rightarrow> rat \<Rightarrow> nat \<Rightarrow> thrown + portfolio_item list" where
  "getUserPortfolio src username minPortfolioWeight maxPositions =
     (if username = [] then Inr []
      else
        (case portfolioSummary src username of
           Inl e \<Rightarrow> Inl e
         | Inr summary \<Rightarrow>
             (case positions summary of
                None \<Rightarrow> Inr [NoDataNote noPortfolioText]
              | Some ps \<Rightarrow>
                  (case socialTrades summary of
                     None \<Rightarrow>
                       Inl (TypeError ''Cannot read properties of undefined (reading map)'')
                   | Some ts \<Rightarrow>
                       (let ids = map positionInstrumentId ps;
                            fundamentals = fundamentals_view src ids;
                            instrs = instruments src ids;
                            investors = popular_investors_fundamentals src (map parentUsername ts);
                            etfs = etf_fundamentals_view src ids
                        in if error fundamentals \<noteq> None \<or> error instrs \<noteq> None \<or>
                              error investors \<noteq> None \<or> error etfs \<noteq> None
                           then Inr []
                           else
                             (let mergedPortfolioData =
                                    map (\<lambda>p. PositionHolding p
                                               (orElse (findRow fundamentals p)
                                                  (orElse (findRow instrs p) (findRow etfs p)))) ps @
                                    map (\<lambda>t. TradeHolding t (findInvestor investors t)) ts;
                                  finalResult =
                                    take maxPositions
                                      (sort_key (\<lambda>e. - weightOrZero e)
                                         (filter (aboveWeight minPortfolioWeight)
                                            (map (\<lambda>h. \<lparr>holding = h,
                                                         portfolioWeight = weightOf ps ts h\<rparr>)
                                               mergedPortfolioData)))
                              in Inr (map Entry finalResult)))))))"

section \<open>agent-request.ts: the model calls\<close>

text \<open>
  The seven query agents of \<^verbatim>\<open>generateSQLAgentResponse\<close>, in the order of its array,
  and the object the model generates for each (\<^verbatim>\<open>sqlSchemaObject\<close>).
\<close>

datatype domain =
  ETFData | LatestNews | EarningsDates | StockFundamentals | DividendDates
  | PopularInvestors | AssetPrices

record generated_query =
  generatedReasoning :: string
  numberOfResultsSpecified :: "int option"
  generatedSqlQuery :: "string option"

record sql_agent_result =
  agentObject :: generated_query
  agentStepName :: string

text \<open>
  The language model is a parameter: the outcome of each model call of the turn, and the
  fragments the final streaming call yields for its input.
\<close>

record model_calls =
  classificationCall :: "thrown + classification"
  sqlAgentCall :: "domain \<Rightarrow> thrown + generated_query"
  portfolioAnalysisCall :: "thrown + string"
  googleSearchCall :: "thrown + string"
  additionalDataCall :: "thrown + string"
  finalAgentStream :: "synthesis_input \<Rightarrow> string list"

text \<open>
  \<^verbatim>\<open>generateObjectWithTrace\<close>: \<^verbatim>\<open>const result = await generateObject(params)\<close>, then
  \<^verbatim>\<open>Object.assign(result.object, { stepName })\<close>. A rejection of the model call passes
  through.
\<close>

definition generateObjectWithTrace ::
  "(thrown + generated_query) \<Rightarrow> string \<Rightarrow> thrown + sql_agent_result" where
  "generateObjectWithTrace outcome step =
     (case outcome of
        Inl e \<Rightarrow> Inl e
      | Inr obj \<Rightarrow> Inr \<lparr>agentObject = obj, agentStepName = step\<rparr>)"

fun agentStep :: "domain \<Rightarrow> string" where
  "agentStep ETFData = ''ETF Data''"
| "agentStep LatestNews = ''Latest News''"
| "agentStep EarningsDates = ''Earnings Dates''"
| "agentStep StockFundamentals = ''Stock Fundamentals''"
| "agentStep DividendDates = ''Dividend Dates''"
| "agentStep PopularInvestors = ''Popular Investors''"
| "agentStep AssetPrices = ''Asset Prices''"

text \<open>The guard in front of each agent in the array of \<^verbatim>\<open>generateSQLAgentResponse\<close>.\<close>

fun agentGuard :: "classification \<Rightarrow> domain \<Rightarrow> bool" where
  "agentGuard c ETFData = isAboutETFs c"
| "agentGuard c LatestNews = isAboutNews c"
| "agentGuard c EarningsDates = isAboutEarningsDates c"
| "agentGuard c StockFundamentals = (isAboutStockFundamentals c \<and> \<not> isAboutInvestors c)"
| "agentGuard c DividendDates = isAboutDividendDates c"
| "agentGuard c PopularInvestors = (isAboutInvestors c \<or> isAboutSmartPortfolios c)"
| "agentGuard c AssetPrices = isAboutAssetPricesOrPerformance c"

text \<open>
  \<^verbatim>\<open>
  const queryResults = await Promise.all(
    [ classification.isAboutETFs && generateObjectWithTrace(...), ... ].filter(Boolean)
  );
  return queryResults;
  \<close>
\<close>

definition sqlAgentTasks :: "model_calls \<Rightarrow> classification \<Rightarrow> (thrown + sql_agent_result) list" where
  "sqlAgentTasks calls classification =
     map (\<lambda>d. generateObjectWithTrace (sqlAgentCall calls d) (agentStep d))
       (filter (agentGuard classification)
          [ETFData, LatestNews, EarningsDates, StockFundamentals, DividendDates,
           PopularInvestors, AssetPrices])"

definition generateSQLAgentResponse ::
  "model_calls \<Rightarrow> classification \<Rightarrow> thrown + sql_agent_result list" where
  "generateSQLAgentResponse calls classification =
     promiseAll (sqlAgentTasks calls classification)"

text \<open>
  \<^verbatim>\<open>generatePortfolioAnalysisResponse\<close>: the content of the analysis, or nothing
  (\<^verbatim>\<open>false\<close>) when the query is not about the user's portfolio.
\<close>

definition generatePortfolioAnalysisResponse ::
  "model_calls \<Rightarrow> classification \<Rightarrow> thrown + string option" where
  "generatePortfolioAnalysisResponse calls classification =
     (if isAboutUserPortfolio classification
      then map_sum id Some (portfolioAnalysisCall calls)
      else Inr None)"

definition generateGoogleSearchAgentResponse :: "model_calls \<Rightarrow> thrown + string option" where
  "generateGoogleSearchAgentResponse calls = map_sum id Some (googleSearchCall calls)"

definition getAdditionalDataResponse :: "model_calls \<Rightarrow> thrown + string option" where
  "getAdditionalDataResponse calls = map_sum id Some (additionalDataCall calls)"

text \<open>
  The object \<^verbatim>\<open>generateStreamFinalAgentResponse\<close> returns, as its properties in order:
  \<^verbatim>\<open>return { partialObjectStream: result.partialObjectStream, finishPromise: undefined };\<close>
  Reading a property an object does not have gives \<^verbatim>\<open>undefined\<close>.
\<close>

datatype js_property = UndefinedValue | StreamValue "string list"

type_synonym js_object = "(string \<times> js_property) list"

definition property :: "js_object \<Rightarrow> string \<Rightarrow> js_property" where
  "property obj key = (case map_of obj key of Some v \<Rightarrow> v | None \<Rightarrow> UndefinedValue)"

definition generateStreamFinalAgentResponse ::
  "model_calls \<Rightarrow> synthesis_input \<Rightarrow> world \<Rightarrow> js_object \<times> world" where
  "generateStreamFinalAgentResponse calls input w =
     ([(''partialObjectStream'', StreamValue (finalAgentStream calls input)),
       (''finishPromise'', UndefinedValue)],
      w\<lparr>synthesized := synthesized w @ [input]\<rparr>)"

section \<open>route.ts: the pipeline of a turn\<close>

text \<open>\<^verbatim>\<open>stream.getReader()\<close>: a method call on \<^verbatim>\<open>undefined\<close> throws.\<close>

fun getReader :: "js_property \<Rightarrow> thrown + string list" where
  "getReader UndefinedValue =
     Inl (TypeError ''Cannot read properties of undefined (reading getReader)'')"
| "getReader (StreamValue chunks) = Inr chunks"

text \<open>The condition in front of the web-search agent.\<close>

definition wantsGoogleSearch :: "classification \<Rightarrow> bool" where
  "wantsGoogleSearch c \<longleftrightarrow>
     isAboutEarningsCallsSummariesOrRevenueSegmentation c \<or>
     isAboutImportantCEOs c \<or>
     isAboutNews c \<or>
     isAboutEarningsDates c \<or>
     isAboutCorporateGuidanceOrStrategicOutlook c \<or>
     ((isAboutCrypto c \<or> isAboutCurrenciesOrCommoditiesOrIndices c) \<and>
      \<not> isAboutUserPortfolio c \<and> \<not> isAboutInvestors c)"

text \<open>
  \<^verbatim>\<open>
  const [portfolioAnalysis, queryResults, googleSearchResult, additionalData] =
    await Promise.all([
      isAboutUserPortfolio ? generatePortfolioAnalysisResponse(...) : Promise.resolve(null),
      generateSQLAgentResponse(...),
      <web search condition> ? generateGoogleSearchAgentResponse(...) : Promise.resolve(null),
      isAboutAssetPricesOrPerformance ? await getAdditionalDataResponse(...) : Promise.resolve(null),
    ]);
  \<close>
  The fourth element is awaited while the array is built: when it rejects, the
  exception leaves the pipeline before \<^verbatim>\<open>Promise.all\<close> is called. Otherwise
  \<^verbatim>\<open>Promise.all\<close> joins the other three.
\<close>

definition parallelAgents ::
  "model_calls \<Rightarrow> classification \<Rightarrow>
     thrown + (string option \<times> sql_agent_result list \<times> string option \<times> string option)" where
  "parallelAgents calls c =
     (case (if isAboutAssetPricesOrPerformance c then getAdditionalDataResponse calls
            else Inr None) of
        Inl e \<Rightarrow> Inl e
      | Inr additional \<Rightarrow>
          (case (if isAboutUserPortfolio c then generatePortfolioAnalysisResponse calls c
                 else Inr None) of
             Inl e \<Rightarrow> Inl e
           | Inr portfolioAnalysis \<Rightarrow>
               (case generateSQLAgentResponse calls c of
                  Inl e \<Rightarrow> Inl e
                | Inr queryResults \<Rightarrow>
                    (case (if wantsGoogleSearch c then generateGoogleSearchAgentResponse calls
                           else Inr None) of
                       Inl e \<Rightarrow> Inl e
                     | Inr google \<Rightarrow>
                         Inr (portfolioAnalysis, queryResults, google, additional)))))"

text \<open>
  \<^verbatim>\<open>
  const allQueries = queryResults
    .filter((result) => result !== false)
    .map((result: any) => ({
      sqlQuery: result.object.sqlQuery,
      reasoning: result.object.reasoning,
      stepName: result.object.stepName,
    }));
  \<close>
  No element of \<^verbatim>\<open>queryResults\<close> is \<^verbatim>\<open>false\<close>: the agents' array was filtered.
\<close>

definition toCandidateQuery :: "sql_agent_result \<Rightarrow> candidate_query" where
  "toCandidateQuery result =
     \<lparr>sqlQuery = (case generatedSqlQuery (agentObject result) of
                    None \<Rightarrow> JNull
                  | Some s \<Rightarrow> JStr s),
      reasoning = generatedReasoning (agentObject result),
      stepName = agentStepName result\<rparr>"

text \<open>
  The rest of \<^verbatim>\<open>agentTaskPipeline\<close>, from the extraction of the queries on: the
  executor (the route passes its writer), the fallback
  \<^verbatim>\<open>
  if (!comparisonData || comparisonData.length === 0) {
    comparisonData = [...comparisonData, ...mainTickerMatches];
  }
  \<close>
  the final model call, and the relay of its stream:
  \<^verbatim>\<open>
  const { textStream, finishPromise } = await generateStreamFinalAgentResponse(...);
  const reader = textStream.getReader();
  while (true) { let { done, value } = await reader.read(); if (done) break; writer.write(value); }
  \<close>
\<close>

definition answerFromEvidence ::
  "model_calls \<Rightarrow> database \<Rightarrow> classification \<Rightarrow> ticker_match list \<Rightarrow> portfolio_item list \<Rightarrow>
     (string option \<times> sql_agent_result list \<times> string option \<times> string option) \<Rightarrow>
     world \<Rightarrow> (thrown + unit) \<times> world" where
  "answerFromEvidence calls db c mainTickerMatches portfolio gathered w =
     (case gathered of
        (portfolioAnalysis, queryResults, google, additional) \<Rightarrow>
          (case generateComparisonDataSqlQueriesResponse True db
                  (map toCandidateQuery queryResults) w of
             (Inl e, w1) \<Rightarrow> (Inl e, w1)
           | (Inr rows, w1) \<Rightarrow>
               (case generateStreamFinalAgentResponse calls
                       \<lparr>googleSearchResult = google,
                        comparisonData =
                          (if length rows = 0 then rows @ map TickerRow mainTickerMatches
                           else rows),
                        portfolioData = portfolio,
                        portfolioAnalysisContent =
                          (case portfolioAnalysis of Some content \<Rightarrow> content | None \<Rightarrow> []),
                        tradeIntent = userWantsToTradeAnAsset c,
                        additionalData = additional\<rparr> w1 of
                  (answer, w2) \<Rightarrow>
                    (case getReader (property answer ''textStream'') of
                       Inl e \<Rightarrow> (Inl e, w2)
                     | Inr chunks \<Rightarrow>
                         (Inr (), w2\<lparr>written := written w2 @ map AnswerChunk chunks\<rparr>)))))"

text \<open>
  \<^verbatim>\<open>agentTaskPipeline\<close>: classification, the portfolio fetch (with the default
  threshold \<^verbatim>\<open>0.3\<close> and cap \<^verbatim>\<open>50\<close>), ticker resolution, the parallel agents, and the
  rest above. A rejection at any \<^verbatim>\<open>await\<close> leaves the pipeline.
\<close>

definition agentTaskPipeline ::
  "model_calls \<Rightarrow> portfolio_sources \<Rightarrow> catalog \<Rightarrow> database \<Rightarrow> string \<Rightarrow> world \<Rightarrow>
     (thrown + unit) \<times> world" where
  "agentTaskPipeline calls src cat db user_name w =
     (case classificationCall calls of
        Inl e \<Rightarrow> (Inl e, w)
      | Inr c \<Rightarrow>
          (case (if isAboutUserPortfolio c then getUserPortfolio src user_name (3 / 10) 50
                 else Inr []) of
             Inl e \<Rightarrow> (Inl e, w)
           | Inr portfolio \<Rightarrow>
               (case generateTickersExtractionQueriesResponse cat c True w of
                  (mainTickerMatches, w1) \<Rightarrow>
                    (case parallelAgents calls c of
                       Inl e \<Rightarrow> (Inl e, w1)
                     | Inr gathered \<Rightarrow>
                         answerFromEvidence calls db c mainTickerMatches portfolio gathered w1))))"

section \<open>Notions the properties are stated with\<close>

text \<open>
  The evidence-gathering tasks a turn dispatches, each with its outcome, in the order of
  the source's arrays: the portfolio analysis, the query agents, the web search and the
  auxiliary-tool agent, each under its guard. \<open>mergedEvidence\<close> lists the evidence
  present in the joined result.
\<close>

datatype evidence =
    PortfolioAnalysisEvidence string
  | QueryEvidence sql_agent_result
  | WebSearchEvidence string
  | AuxiliaryEvidence string

definition dispatchedTasks :: "model_calls \<Rightarrow> classification \<Rightarrow> (thrown + evidence) list" where
  "dispatchedTasks calls c =
     (if isAboutUserPortfolio c
      then [map_sum id PortfolioAnalysisEvidence (portfolioAnalysisCall calls)] else []) @
     map (map_sum id QueryEvidence) (sqlAgentTasks calls c) @
     (if wantsGoogleSearch c
      then [map_sum id WebSearchEvidence (googleSearchCall calls)] else []) @
     (if isAboutAssetPricesOrPerformance c
      then [map_sum id AuxiliaryEvidence (additionalDataCall calls)] else [])"

fun mergedEvidence ::
  "string option \<times> sql_agent_result list \<times> string option \<times> string option \<Rightarrow> evidence list" where
  "mergedEvidence (portfolioAnalysis, queryResults, google, additional) =
     (case portfolioAnalysis of Some x \<Rightarrow> [PortfolioAnalysisEvidence x] | None \<Rightarrow> []) @
     map QueryEvidence queryResults @
     (case google of Some x \<Rightarrow> [WebSearchEvidence x] | None \<Rightarrow> []) @
     (case additional of Some x \<Rightarrow> [AuxiliaryEvidence x] | None \<Rightarrow> [])"


text \<open>
  Some enrichment query of the portfolio fetch reports an error (the test the source
  makes on the four \<^verbatim>\<open>error\<close> fields).
\<close>

definition enrichmentError :: "portfolio_sources \<Rightarrow> position list \<Rightarrow> social_trade list \<Rightarrow> bool" where
  "enrichmentError src ps ts \<longleftrightarrow>
     error (fundamentals_view src (map positionInstrumentId ps)) \<noteq> None \<or>
     error (instruments src (map positionInstrumentId ps)) \<noteq> None \<or>
     error (popular_investors_fundamentals src (map parentUsername ts)) \<noteq> None \<or>
     error (etf_fundamentals_view src (map positionInstrumentId ps)) \<noteq> None"

text \<open>
  The entries of a portfolio before the weight filter, said from the summary: one per
  position, in the order of the positions, then one per copy relationship. A position
  with a non-zero instrument id weighs what the first position with that id holds as
  \<^verbatim>\<open>valuePctUnrealized\<close>, and nothing with the id \<open>0\<close>; a copy relationship weighs
  what the first relationship with its parent user name holds. The catalog row attached
  to a position is the first match in the fundamentals, else in the instruments, else in
  the ETF view.
\<close>

definition firstPositionWeight :: "position list \<Rightarrow> int \<Rightarrow> json_number" where
  "firstPositionWeight ps i =
     (case filter (\<lambda>q. positionInstrumentId q = i) ps of
        [] \<Rightarrow> JsonAbsent
      | q # qs \<Rightarrow> valuePctUnrealized q)"

definition firstTradeWeight :: "social_trade list \<Rightarrow> string \<Rightarrow> json_number" where
  "firstTradeWeight ts u =
     (case filter (\<lambda>t. parentUsername t = u) ts of
        [] \<Rightarrow> JsonAbsent
      | t # ts' \<Rightarrow> tradeValuePctUnrealized t)"

definition portfolioEntries ::
  "portfolio_sources \<Rightarrow> position list \<Rightarrow> social_trade list \<Rightarrow> portfolio_entry list" where
  "portfolioEntries src ps ts =
     map (\<lambda>p. \<lparr>holding =
                   PositionHolding p
                     (orElse (findRow (fundamentals_view src (map positionInstrumentId ps)) p)
                        (orElse (findRow (instruments src (map positionInstrumentId ps)) p)
                           (findRow (etf_fundamentals_view src (map positionInstrumentId ps)) p))),
                 portfolioWeight =
                   (if positionInstrumentId p = 0 then JsonAbsent
                    else firstPositionWeight ps (positionInstrumentId p))\<rparr>) ps @
     map (\<lambda>t. \<lparr>holding =
                   TradeHolding t
                     (findInvestor (popular_investors_fundamentals src (map parentUsername ts)) t),
                 portfolioWeight = firstTradeWeight ts (parentUsername t)\<rparr>) ts"

text \<open>The values the agents' schema allows for a SQL text: a string or \<^verbatim>\<open>null\<close>.\<close>

fun stringOrNull :: "js_value \<Rightarrow> bool" where
  "stringOrNull JNull = True"
| "stringOrNull (JStr s) = True"
| "stringOrNull v = False"

text \<open>
  Already-quoted input for the identifier quoter: a text made of
  \<^item> quoted identifiers: a double quote, a non-empty run of word characters, a double
    quote, not directly followed by another double quote;
  \<^item> bare words that are keywords or function names of the two fixed sets in any
    case (a bare run that begins with a digit, such as a number, is allowed too);
  \<^item> separators: any other character except the single quote (no string literals) and
    the percent sign (no wildcards).
\<close>

text \<open>A text that does not begin with a double quote.\<close>

definition plainStart :: "string \<Rightarrow> bool" where
  "plainStart s = (case s of [] \<Rightarrow> True | d # ds \<Rightarrow> d \<noteq> dq)"

definition isReserved :: "string \<Rightarrow> bool" where
  "isReserved word \<longleftrightarrow>
     toUpperCase word \<in> set sqlKeywords \<or> toUpperCase word \<in> set functionNames"

function wellQuoted :: "string \<Rightarrow> bool" where
  "wellQuoted [] = True"
| "wellQuoted (c # cs) =
     (if c = dq then
        (case dropWhile isWordChar cs of
           [] \<Rightarrow> False
         | e # rest \<Rightarrow>
             e = dq \<and> takeWhile isWordChar cs \<noteq> [] \<and>
             (case rest of [] \<Rightarrow> True | d # ds \<Rightarrow> d \<noteq> dq) \<and>
             wellQuoted rest)
      else if isWordChar c then
        (if isIdentStart c then isReserved (c # takeWhile isWordChar cs) else True) \<and>
        wellQuoted (dropWhile isWordChar cs)
      else c \<noteq> sq \<and> c \<noteq> pct \<and> wellQuoted cs)"
  by pat_completeness auto
termination
proof (relation "measure length")
  show "wf (measure length)" by simp
next
  fix c :: char and cs x21 x22
  assume "dropWhile isWordChar cs = x21 # x22"
  then have "length x22 < length (dropWhile isWordChar cs)" by simp
  also have "\<dots> \<le> length cs" by (rule length_dropWhile_le)
  finally show "(x22, c # cs) \<in> measure length" by simp
next
  fix c :: char and cs
  have "length (dropWhile isWordChar cs) \<le> length cs" by (rule length_dropWhile_le)
  then show "(dropWhile isWordChar cs, c # cs) \<in> measure length" by simp
next
  fix c :: char and cs
  show "(cs, c # cs) \<in> measure length" by simp
qed

text \<open>Sample inputs for the concrete instances below.\<close>

definition noTopics :: classification where
  "noTopics =
     \<lparr>classificationReasoning = ''general question'',
      reasoningInSimpleLanguageAddressedAtUser = ''I will answer from general knowledge'',
      isAboutUserPortfolio = False, isAboutStockFundamentals = False,
      isStockIndustryRelevant = False, isAboutETFs = False,
      isAboutCurrenciesOrCommoditiesOrIndices = False, isAboutCrypto = False,
      isAboutNews = False, isAboutEarningsDates = False, isAboutDividendDates = False,
      isAboutInvestors = False, isAboutSmartPortfolios = False,
      isAboutAssetPricesOrPerformance = False, userWantsToTradeAnAsset = False,
      possibleAssetNamesOrTickers = [],
      isAboutEarningsCallsSummariesOrRevenueSegmentation = False,
      isAboutCorporateGuidanceOrStrategicOutlook = False, isAboutImportantCEOs = False,
      previousRelevantTickers = []\<rparr>"

definition emptyWorld :: world where
  "emptyWorld = \<lparr>written = [], executed = [], catalogLookups = [], synthesized = []\<rparr>"

definition newsOnly :: classification where
  "newsOnly = noTopics\<lparr>isAboutNews := True\<rparr>"

definition modelOverloaded :: thrown where
  "modelOverloaded = Failure ''The model is overloaded'' ''Error: The model is overloaded''"

text \<open>
  A turn in which the news query agent's model call rejects while every other call
  fulfils, and outside collaborators that answer with nothing.
\<close>

definition newsAgentFails :: model_calls where
  "newsAgentFails =
     \<lparr>classificationCall = Inr newsOnly,
      sqlAgentCall = (\<lambda>d. Inl modelOverloaded),
      portfolioAnalysisCall = Inr ''balanced portfolio'',
      googleSearchCall = Inr ''Markets rallied today'',
      additionalDataCall = Inr ''no additional data'',
      finalAgentStream = (\<lambda>input. [])\<rparr>"

definition noSources :: portfolio_sources where
  "noSources =
     \<lparr>portfolioSummary = (\<lambda>u. Inr \<lparr>positions = None, socialTrades = None\<rparr>),
      fundamentals_view = (\<lambda>ids. \<lparr>data = Some [], error = None\<rparr>),
      instruments = (\<lambda>ids. \<lparr>data = Some [], error = None\<rparr>),
      popular_investors_fundamentals = (\<lambda>names. \<lparr>data = Some [], error = None\<rparr>),
      etf_fundamentals_view = (\<lambda>ids. \<lparr>data = Some [], error = None\<rparr>)\<rparr>"

definition emptyCatalog :: catalog where
  "emptyCatalog = (\<lambda>classes filter. Some [])"

definition emptyDatabase :: database where
  "emptyDatabase = (\<lambda>text. Inr [])"

definition newsQuery :: sql_agent_result where
  "newsQuery =
     \<lparr>agentObject =
        \<lparr>generatedReasoning = ''latest headlines'', numberOfResultsSpecified = None,
         generatedSqlQuery = Some ''SELECT title FROM news_view''\<rparr>,
      agentStepName = ''Latest News''\<rparr>"


definition declinedQuery :: candidate_query where
  "declinedQuery = \<lparr>sqlQuery = JNull, reasoning = ''nothing to look up'', stepName = ''ETF Data''\<rparr>"



definition failingDatabase :: database where
  "failingDatabase =
     (\<lambda>text. Inl (Failure ''relation news_view does not exist''
                    ''error: relation news_view does not exist''))"

text \<open>
  A portfolio of five positions (one with a \<^verbatim>\<open>null\<close> weight, one with none) and one
  copied investor.
\<close>

definition samplePositions :: "position list" where
  "samplePositions =
     [\<lparr>positionInstrumentId = 1001, valuePctUnrealized = JsonNumber 30\<rparr>,
      \<lparr>positionInstrumentId = 1002, valuePctUnrealized = JsonNumber (1 / 5)\<rparr>,
      \<lparr>positionInstrumentId = 1003, valuePctUnrealized = JsonNumber 50\<rparr>,
      \<lparr>positionInstrumentId = 1004, valuePctUnrealized = JsonNull\<rparr>,
      \<lparr>positionInstrumentId = 1005, valuePctUnrealized = JsonAbsent\<rparr>]"

definition sampleTrades :: "social_trade list" where
  "sampleTrades = [\<lparr>parentUsername = ''bob'', tradeValuePctUnrealized = JsonNumber 40\<rparr>]"

definition sampleSummary :: portfolio_summary where
  "sampleSummary = \<lparr>positions = Some samplePositions, socialTrades = Some sampleTrades\<rparr>"

definition sampleSources :: portfolio_sources where
  "sampleSources = noSources\<lparr>portfolioSummary := (\<lambda>u. Inr sampleSummary)\<rparr>"

definition brokenSources :: portfolio_sources where
  "brokenSources =
     sampleSources\<lparr>etf_fundamentals_view := (\<lambda>ids. \<lparr>data = None, error = Some ''timeout''\<rparr>)\<rparr>"

text \<open>Entries of the sample portfolio, none of them enriched by a catalog row.\<close>

definition positionEntry :: "int \<Rightarrow> json_number \<Rightarrow> portfolio_entry" where
  "positionEntry i w =
     \<lparr>holding = PositionHolding \<lparr>positionInstrumentId = i, valuePctUnrealized = w\<rparr> None,
      portfolioWeight = w\<rparr>"

definition tradeEntry :: "string \<Rightarrow> json_number \<Rightarrow> portfolio_entry" where
  "tradeEntry u w =
     \<lparr>holding = TradeHolding \<lparr>parentUsername = u, tradeValuePctUnrealized = w\<rparr> None,
      portfolioWeight = w\<rparr>"

section \<open>Properties of the safety filter\<close>

lemma includes_iff: "str_includes s pat \<longleftrightarrow> (\<exists>pre post. s = pre @ pat @ post)"
proof (induction s)
  case Nil
  then show ?case by auto
next
  case (Cons c cs)
  show ?case
  proof
    assume "str_includes (c # cs) pat"
    then consider "prefix pat (c # cs)" | "str_includes cs pat" by auto
    then show "\<exists>pre post. c # cs = pre @ pat @ post"
    proof cases
      case 1
      then obtain post where "c # cs = pat @ post" by (auto simp: prefix_def)
      then have "c # cs = [] @ pat @ post" by simp
      then show ?thesis by blast
    next
      case 2
      with Cons.IH obtain pre post where "cs = pre @ pat @ post" by blast
      then have "c # cs = (c # pre) @ pat @ post" by simp
      then show ?thesis by blast
    qed
  next
    assume "\<exists>pre post. c # cs = pre @ pat @ post"
    then obtain pre post where eq: "c # cs = pre @ pat @ post" by blast
    show "str_includes (c # cs) pat"
    proof (cases pre)
      case Nil
      with eq have "prefix pat (c # cs)" by (simp add: prefix_def)
      then show ?thesis by simp
    next
      case (Cons d pre')
      with eq have "cs = pre' @ pat @ post" by simp
      with Cons.IH have "str_includes cs pat" by blast
      then show ?thesis by simp
    qed
  qed
qed

lemma toUpperCase_append: "toUpperCase (a @ b) = toUpperCase a @ toUpperCase b"
  by (simp add: toUpperCase_def)

lemma isDangerousQuery_denylist:
  "isDangerousQuery query \<longleftrightarrow> (\<exists>w \<in> set denylist. str_includes (toUpperCase query) w)"
  by (simp add: isDangerousQuery_def denylist_def)

text \<open>
  C2. \<open>isDangerousQuery\<close> answers true exactly when the upper-cased text contains one of
  the nine denylisted words as a contiguous substring. In particular a text that embeds
  any spelling \<open>v\<close> of a denylisted verb (any mix of cases: its upper-casing is on the
  denylist) is flagged, whatever surrounds it; and a text whose upper-casing contains none
  of the nine words is not flagged (the right-to-left half of the first conjunct).
\<close>

theorem isDangerousQuery_spec:
  "(isDangerousQuery sql \<longleftrightarrow>
      (\<exists>w \<in> set denylist. \<exists>pre post. toUpperCase sql = pre @ w @ post)) \<and>
   (toUpperCase v \<in> set denylist \<longrightarrow> isDangerousQuery (before @ v @ after))"
proof
  show "isDangerousQuery sql \<longleftrightarrow>
      (\<exists>w \<in> set denylist. \<exists>pre post. toUpperCase sql = pre @ w @ post)"
    by (simp only: isDangerousQuery_denylist includes_iff)
next
  show "toUpperCase v \<in> set denylist \<longrightarrow> isDangerousQuery (before @ v @ after)"
  proof
    assume v: "toUpperCase v \<in> set denylist"
    have "toUpperCase (before @ v @ after) =
            toUpperCase before @ toUpperCase v @ toUpperCase after"
      by (simp add: toUpperCase_append)
    then have "str_includes (toUpperCase (before @ v @ after)) (toUpperCase v)"
      unfolding includes_iff by blast
    with v show "isDangerousQuery (before @ v @ after)"
      unfolding isDangerousQuery_denylist by blast
  qed
qed

theorem isDangerousQuery_spec_witness:
  "toUpperCase ''DrOp'' \<in> set denylist \<and>
   isDangerousQuery (''select 1; '' @ ''DrOp'' @ '' table t'') \<and>
   \<not> isDangerousQuery ''SELECT name FROM t WHERE x = 1''"
proof -
  have h: "toUpperCase ''DrOp'' \<in> set denylist"
    by (simp add: toUpperCase_def toUpperChar_def denylist_def)
  have n: "\<not> isDangerousQuery ''SELECT name FROM t WHERE x = 1''"
    by code_simp
  from isDangerousQuery_spec [of _ "''DrOp''" "''select 1; ''" "'' table t''"] h n
  show ?thesis by blast
qed

section \<open>Properties of the ticker resolver\<close>

text \<open>
  C6. A classification with no candidate names, no tickers from earlier turns and no
  trade intent resolves to the empty sequence, whatever its other flags are, and the
  effects are untouched: no lookup is sent to the catalog.
\<close>

theorem tickerResolver_short_circuit:
  assumes "possibleAssetNamesOrTickers c = []" and "previousRelevantTickers c = []"
    and "\<not> userWantsToTradeAnAsset c"
  shows "generateTickersExtractionQueriesResponse cat c wantsLogs w = ([], w)"
  using assms by (simp add: generateTickersExtractionQueriesResponse_def)

theorem tickerResolver_short_circuit_witness:
  "generateTickersExtractionQueriesResponse emptyCatalog
     (noTopics\<lparr>isAboutNews := True, isAboutCrypto := True, isAboutInvestors := True\<rparr>)
     True emptyWorld = ([], emptyWorld)"
  by (rule tickerResolver_short_circuit) (simp_all add: noTopics_def)

text \<open>Past the guard the resolver sends exactly one lookup.\<close>

lemma tickerResolver_looks_up_otherwise:
  assumes "possibleAssetNamesOrTickers c \<noteq> [] \<or> previousRelevantTickers c \<noteq> [] \<or>
           userWantsToTradeAnAsset c"
  shows "length (catalogLookups (snd (generateTickersExtractionQueriesResponse cat c wantsLogs w)))
           = Suc (length (catalogLookups w))"
  using assms
  by (auto simp: generateTickersExtractionQueriesResponse_def Let_def split: option.splits)

section \<open>Properties of the parallel agents\<close>

lemma promiseAll_cases:
  "(case promiseAll rs of Inl e \<Rightarrow> Inl e \<in> set rs | Inr vs \<Rightarrow> rs = map Inr vs)"
proof (induction rs)
  case Nil
  then show ?case by simp
next
  case (Cons r rs)
  then show ?case by (cases r) (auto split: sum.splits)
qed

lemma Inl_in_map_sum: "Inl e \<in> map_sum id f ` S \<longleftrightarrow> Inl e \<in> S"
proof
  assume "Inl e \<in> map_sum id f ` S"
  then obtain x where x: "x \<in> S" "Inl e = map_sum id f x" by blast
  then show "Inl e \<in> S" by (cases x) auto
next
  assume "Inl e \<in> S"
  then have "map_sum id f (Inl e) \<in> map_sum id f ` S" by (rule imageI)
  then show "Inl e \<in> map_sum id f ` S" by simp
qed

text \<open>
  The join of the evidence-gathering tasks is all or nothing: either it rejects, with the
  rejection of one of the dispatched tasks, or it fulfils, and then every dispatched task
  fulfilled and the merged result holds the evidence of each of them, in dispatch order.
\<close>

lemma parallelAgents_cases:
  "(case parallelAgents calls c of
      Inl e \<Rightarrow> Inl e \<in> set (dispatchedTasks calls c)
    | Inr merged \<Rightarrow> dispatchedTasks calls c = map Inr (mergedEvidence merged))"
proof -
  have sql: "(case generateSQLAgentResponse calls c of
               Inl e \<Rightarrow> Inl e \<in> set (sqlAgentTasks calls c)
             | Inr vs \<Rightarrow> sqlAgentTasks calls c = map Inr vs)"
    unfolding generateSQLAgentResponse_def by (rule promiseAll_cases)
  show ?thesis
    using sql
    by (cases "portfolioAnalysisCall calls"; cases "googleSearchCall calls";
        cases "additionalDataCall calls"; cases "generateSQLAgentResponse calls c")
       (auto simp: parallelAgents_def dispatchedTasks_def
          generatePortfolioAnalysisResponse_def generateGoogleSearchAgentResponse_def
          getAdditionalDataResponse_def Inl_in_map_sum)
qed

text \<open>A rejected join ends the turn: the pipeline rejects and makes no final model call.\<close>

lemma pipeline_aborts_with_agents:
  assumes "classificationCall calls = Inr c"
    and "(if isAboutUserPortfolio c then getUserPortfolio src user (3 / 10) 50 else Inr []) =
           Inr portfolio"
    and "parallelAgents calls c = Inl e"
  shows "fst (agentTaskPipeline calls src cat db user w) = Inl e \<and>
         synthesized (snd (agentTaskPipeline calls src cat db user w)) = synthesized w"
proof -
  obtain tms w1 where r: "generateTickersExtractionQueriesResponse cat c True w = (tms, w1)"
    by (cases "generateTickersExtractionQueriesResponse cat c True w")
  then have "synthesized w1 = synthesized w"
    by (auto simp: generateTickersExtractionQueriesResponse_def Let_def
        split: if_splits option.splits)
  with assms r show ?thesis by (simp add: agentTaskPipeline_def)
qed

text \<open>
  C1, as the code has it. The join of the evidence-gathering tasks is all or nothing:
  either it rejects, with the rejection of one of the dispatched tasks, and there is no
  merged result; or it fulfils, and then every dispatched task fulfilled and the merged
  result holds the evidence of each of them, in dispatch order. When the join rejects,
  the pipeline of the turn rejects with the same error and the final model call is not
  made. So a single rejected task leaves the turn without the evidence of its siblings.
\<close>

theorem parallelAgents_all_or_nothing:
  "(case parallelAgents calls c of
      Inl e \<Rightarrow> Inl e \<in> set (dispatchedTasks calls c)
    | Inr merged \<Rightarrow> dispatchedTasks calls c = map Inr (mergedEvidence merged)) \<and>
   (classificationCall calls = Inr c \<and>
    (if isAboutUserPortfolio c then getUserPortfolio src user (3 / 10) 50 else Inr []) =
      Inr portfolio \<and>
    parallelAgents calls c = Inl e \<longrightarrow>
      fst (agentTaskPipeline calls src cat db user w) = Inl e \<and>
      synthesized (snd (agentTaskPipeline calls src cat db user w)) = synthesized w)"
  using parallelAgents_cases [of calls c]
    pipeline_aborts_with_agents [of calls c src user portfolio e cat db w]
  by blast

lemma newsAgentFails_join: "parallelAgents newsAgentFails newsOnly = Inl modelOverloaded"
  by (simp add: parallelAgents_def newsAgentFails_def newsOnly_def noTopics_def
      sqlAgentTasks_def generateSQLAgentResponse_def generateObjectWithTrace_def)

theorem parallelAgents_all_or_nothing_witness:
  "Inl modelOverloaded \<in> set (dispatchedTasks newsAgentFails newsOnly) \<and>
   fst (agentTaskPipeline newsAgentFails noSources emptyCatalog emptyDatabase ''ann''
          emptyWorld) = Inl modelOverloaded \<and>
   synthesized (snd (agentTaskPipeline newsAgentFails noSources emptyCatalog emptyDatabase
                       ''ann'' emptyWorld)) = synthesized emptyWorld"
proof -
  have c: "classificationCall newsAgentFails = Inr newsOnly"
    by (simp add: newsAgentFails_def)
  have p: "(if isAboutUserPortfolio newsOnly
            then getUserPortfolio noSources ''ann'' (3 / 10) 50 else Inr []) = Inr []"
    by (simp add: newsOnly_def noTopics_def)
  from parallelAgents_all_or_nothing [of newsAgentFails newsOnly noSources "''ann''" "[]"
         modelOverloaded emptyCatalog emptyDatabase emptyWorld] c p newsAgentFails_join
  show ?thesis by simp
qed

text \<open>
  The claim as it is written fails on a turn about news: two tasks are dispatched, the
  news query agent rejects and the web search fulfils; the join rejects, the pipeline
  rejects with the agent's error, and the final model call is never made.
\<close>

theorem isolation_counterexample:
  "dispatchedTasks newsAgentFails newsOnly =
     [Inl modelOverloaded, Inr (WebSearchEvidence ''Markets rallied today'')] \<and>
   parallelAgents newsAgentFails newsOnly = Inl modelOverloaded \<and>
   fst (agentTaskPipeline newsAgentFails noSources emptyCatalog emptyDatabase ''ann''
          emptyWorld) = Inl modelOverloaded \<and>
   synthesized (snd (agentTaskPipeline newsAgentFails noSources emptyCatalog emptyDatabase
                       ''ann'' emptyWorld)) = []"
  by (simp add: dispatchedTasks_def parallelAgents_def agentTaskPipeline_def
      newsAgentFails_def newsOnly_def noTopics_def sqlAgentTasks_def
      generateSQLAgentResponse_def generateObjectWithTrace_def wantsGoogleSearch_def
      generateGoogleSearchAgentResponse_def generateTickersExtractionQueriesResponse_def
      emptyWorld_def)

section \<open>Properties of the last stages of the pipeline\<close>








text \<open>
  C10. The object \<open>generateStreamFinalAgentResponse\<close> returns has the two properties
  \<^verbatim>\<open>partialObjectStream\<close> and \<^verbatim>\<open>finishPromise\<close> and no other;
  \<^verbatim>\<open>finishPromise\<close> is \<^verbatim>\<open>undefined\<close>, and so is the \<^verbatim>\<open>textStream\<close> the route
  destructures. \<^verbatim>\<open>textStream.getReader()\<close> therefore throws, and every turn whose
  executor fulfils ends with that exception instead of relaying the answer.
\<close>

theorem final_answer_has_no_textStream:
  "map fst (fst (generateStreamFinalAgentResponse calls input w)) =
     [''partialObjectStream'', ''finishPromise''] \<and>
   property (fst (generateStreamFinalAgentResponse calls input w)) ''finishPromise'' =
     UndefinedValue \<and>
   property (fst (generateStreamFinalAgentResponse calls input w)) ''textStream'' =
     UndefinedValue \<and>
   getReader (property (fst (generateStreamFinalAgentResponse calls input w)) ''textStream'') =
     Inl (TypeError ''Cannot read properties of undefined (reading getReader)'') \<and>
   fst (answerFromEvidence calls db c tms portfolio (pa, queryResults, g, a) w0) =
     (case fst (generateComparisonDataSqlQueriesResponse True db
                  (map toCandidateQuery queryResults) w0) of
        Inl e \<Rightarrow> Inl e
      | Inr rows \<Rightarrow> Inl (TypeError ''Cannot read properties of undefined (reading getReader)''))"
  by (simp add: answerFromEvidence_def generateStreamFinalAgentResponse_def property_def
      split: prod.splits sum.splits)

text \<open>No turn of the finance route completes: the pipeline always ends in a rejection.\<close>

lemma agentTaskPipeline_never_completes:
  "\<exists>e. fst (agentTaskPipeline calls src cat db user w) = Inl e"
  by (auto simp: agentTaskPipeline_def answerFromEvidence_def
      generateStreamFinalAgentResponse_def property_def
      split: prod.splits sum.splits)

section \<open>Properties of the query executor\<close>

lemma runAll_Cons_fst:
  "fst (runAll f (q # qs) w) = fst (f q w) # fst (runAll f qs (snd (f q w)))"
  by (simp split: prod.splits)

lemma runAll_Cons_snd:
  "snd (runAll f (q # qs) w) = snd (runAll f qs (snd (f q w)))"
  by (simp split: prod.splits)

lemma executeQuery_result_indep:
  "fst (executeQuery writer db q w) = fst (executeQuery writer db q w')"
  by (auto simp: executeQuery_def dbQueryWithLog_def Let_def
      split: js_value.splits sum.splits prod.splits)

lemma runAll_result_indep:
  "fst (runAll (executeQuery writer db) qs w) = fst (runAll (executeQuery writer db) qs w')"
proof (induction qs arbitrary: w w')
  case Nil
  then show ?case by simp
next
  case (Cons q qs)
  obtain r w1 where a: "executeQuery writer db q w = (r, w1)"
    by (cases "executeQuery writer db q w")
  obtain r' w1' where b: "executeQuery writer db q w' = (r', w1')"
    by (cases "executeQuery writer db q w'")
  from a b executeQuery_result_indep [of writer db q w w'] have "r = r'" by simp
  with a b Cons.IH [of w1 w1'] show ?case by (auto split: prod.splits)
qed

lemma runAll_append:
  "fst (runAll f (xs @ ys) w) = fst (runAll f xs w) @ fst (runAll f ys (snd (runAll f xs w)))"
  by (induction xs arbitrary: w) (simp_all add: runAll_Cons_fst runAll_Cons_snd del: runAll.simps(2))

lemma promiseAll_map_Inr: "promiseAll (map Inr vs) = Inr vs"
  by (induction vs) auto

lemma executor_result:
  "fst (generateComparisonDataSqlQueriesResponse writer db qs w) =
     map_sum id concat (promiseAll (fst (runAll (executeQuery writer db) qs w)))"
  by (auto simp: generateComparisonDataSqlQueriesResponse_def split: prod.splits sum.splits)

lemma executeQuery_fulfils:
  "stringOrNull (sqlQuery q) \<Longrightarrow> \<exists>rows. fst (executeQuery writer db q w) = Inr rows"
  by (cases "sqlQuery q")
     (auto simp: executeQuery_def dbQueryWithLog_def Let_def split: sum.splits prod.splits)

lemma runAll_fulfils:
  "list_all (\<lambda>q. stringOrNull (sqlQuery q)) qs \<Longrightarrow>
     \<exists>rs. fst (runAll (executeQuery writer db) qs w) = map Inr rs"
proof (induction qs arbitrary: w)
  case Nil
  then show ?case by simp
next
  case (Cons q qs)
  obtain r w1 where a: "executeQuery writer db q w = (r, w1)"
    by (cases "executeQuery writer db q w")
  from Cons.prems have "stringOrNull (sqlQuery q)" by simp
  from executeQuery_fulfils [OF this, of writer db w] a obtain rows where r: "r = Inr rows"
    by auto
  from Cons.prems have "list_all (\<lambda>q. stringOrNull (sqlQuery q)) qs" by simp
  from Cons.IH [OF this, of w1] obtain rs where
    rs: "fst (runAll (executeQuery writer db) qs w1) = map Inr rs" by blast
  have "fst (runAll (executeQuery writer db) (q # qs) w) = map Inr (rows # rs)"
    using a r rs by (auto split: prod.splits)
  then show ?case by blast
qed

lemma executeQuery_error_row:
  assumes "sqlQuery q = JStr s" and "s \<noteq> []" and "\<not> isDangerousQuery s"
    and "db (enforceCaseSensitivity s) = Inl err"
  shows "fst (executeQuery writer db q w) =
           Inr [ReasoningRow (reasoning q), ErrorRow (reasoning q) (errorText err)]"
  using assms by (simp add: executeQuery_def dbQueryWithLog_def Let_def)

text \<open>
  C4. A query whose execution throws contributes its \<open>reasoning\<close> row followed by
  one error row that carries the reasoning and the error text; the executor fulfils, and
  in a batch of string-or-null queries the rows of the queries before and after it are
  those they give on their own, in dispatch order.
\<close>

theorem failed_query_becomes_evidence:
  assumes "sqlQuery q = JStr s" and "s \<noteq> []" and "\<not> isDangerousQuery s"
    and "db (enforceCaseSensitivity s) = Inl err"
    and "list_all (\<lambda>q. stringOrNull (sqlQuery q)) (before @ after)"
  shows "\<exists>A B.
           fst (generateComparisonDataSqlQueriesResponse writer db before w1) = Inr A \<and>
           fst (generateComparisonDataSqlQueriesResponse writer db after w2) = Inr B \<and>
           fst (executeQuery writer db q w) =
             Inr [ReasoningRow (reasoning q), ErrorRow (reasoning q) (errorText err)] \<and>
           fst (generateComparisonDataSqlQueriesResponse writer db (before @ q # after) w) =
             Inr (A @ [ReasoningRow (reasoning q), ErrorRow (reasoning q) (errorText err)] @ B)"
proof -
  let ?run = "\<lambda>qs w. fst (runAll (executeQuery writer db) qs w)"
  let ?rows = "[ReasoningRow (reasoning q), ErrorRow (reasoning q) (errorText err)]"
  from assms(5) have tb: "list_all (\<lambda>q. stringOrNull (sqlQuery q)) before"
    and ta: "list_all (\<lambda>q. stringOrNull (sqlQuery q)) after" by simp_all
  from runAll_fulfils [OF tb] obtain rb where rb: "?run before w = map Inr rb" by blast
  from runAll_fulfils [OF ta] obtain ra where ra: "?run after w = map Inr ra" by blast
  have one: "\<And>v. fst (executeQuery writer db q v) = Inr ?rows"
    using assms(1-4) by (rule executeQuery_error_row)
  have rq: "\<And>v. ?run [q] v = [Inr ?rows]"
    using one by (simp add: runAll_Cons_fst del: runAll.simps(2))
  have "?run (before @ q # after) w =
          ?run before w @ ?run ([q] @ after) (snd (runAll (executeQuery writer db) before w))"
    using runAll_append [of "executeQuery writer db" before "[q] @ after" w] by simp
  also have "?run ([q] @ after) (snd (runAll (executeQuery writer db) before w)) =
          ?run ([q] @ after) w" by (rule runAll_result_indep)
  also have "?run ([q] @ after) w =
          ?run [q] w @ ?run after (snd (runAll (executeQuery writer db) [q] w))"
    by (rule runAll_append)
  also have "?run after (snd (runAll (executeQuery writer db) [q] w)) = ?run after w"
    by (rule runAll_result_indep)
  finally have all: "?run (before @ q # after) w = map Inr (rb @ [?rows] @ ra)"
    using rb ra rq by simp
  have b1: "fst (generateComparisonDataSqlQueriesResponse writer db before w1) = Inr (concat rb)"
    using rb runAll_result_indep [of writer db before w1 w]
    by (simp add: executor_result promiseAll_map_Inr)
  have a1: "fst (generateComparisonDataSqlQueriesResponse writer db after w2) = Inr (concat ra)"
    using ra runAll_result_indep [of writer db after w2 w]
    by (simp add: executor_result promiseAll_map_Inr)
  have w1: "fst (generateComparisonDataSqlQueriesResponse writer db (before @ q # after) w) =
              Inr (concat rb @ ?rows @ concat ra)"
    unfolding executor_result all promiseAll_map_Inr by simp
  from b1 a1 one w1 show ?thesis by blast
qed









lemma newsQuery_safe: "\<not> isDangerousQuery ''SELECT title FROM news_view''"
  by code_simp


theorem failed_query_becomes_evidence_witness:
  "fst (generateComparisonDataSqlQueriesResponse True failingDatabase
          ([declinedQuery] @ toCandidateQuery newsQuery # [declinedQuery]) emptyWorld) =
     Inr [ReasoningRow ''latest headlines'',
          ErrorRow ''latest headlines'' ''relation news_view does not exist'']"
proof -
  have q: "sqlQuery (toCandidateQuery newsQuery) = JStr ''SELECT title FROM news_view''"
    by (simp add: toCandidateQuery_def newsQuery_def)
  have ne: "''SELECT title FROM news_view'' \<noteq> []" by simp
  have f: "failingDatabase (enforceCaseSensitivity ''SELECT title FROM news_view'') =
             Inl (Failure ''relation news_view does not exist''
                    ''error: relation news_view does not exist'')"
    by (simp add: failingDatabase_def)
  have t: "list_all (\<lambda>q. stringOrNull (sqlQuery q)) ([declinedQuery] @ [declinedQuery])"
    by (simp add: declinedQuery_def)
  have d: "fst (generateComparisonDataSqlQueriesResponse True failingDatabase [declinedQuery]
                  emptyWorld) = Inr []"
    by (simp add: generateComparisonDataSqlQueriesResponse_def executeQuery_def
        declinedQuery_def)
  from failed_query_becomes_evidence [where db = failingDatabase
         and before = "[declinedQuery]" and after = "[declinedQuery]" and writer = True
         and ?w1.0 = emptyWorld and ?w2.0 = emptyWorld and w = emptyWorld,
         OF q ne newsQuery_safe f t]
  obtain A B where
    A: "fst (generateComparisonDataSqlQueriesResponse True failingDatabase [declinedQuery]
               emptyWorld) = Inr A" and
    B: "fst (generateComparisonDataSqlQueriesResponse True failingDatabase [declinedQuery]
               emptyWorld) = Inr B" and
    R: "fst (generateComparisonDataSqlQueriesResponse True failingDatabase
               ([declinedQuery] @ toCandidateQuery newsQuery # [declinedQuery]) emptyWorld) =
          Inr (A @ [ReasoningRow (reasoning (toCandidateQuery newsQuery)),
                    ErrorRow (reasoning (toCandidateQuery newsQuery))
                      (errorText (Failure ''relation news_view does not exist''
                                    ''error: relation news_view does not exist''))] @ B)"
    by blast
  from A B d have "A = []" "B = []" by simp_all
  with R show ?thesis by (simp add: toCandidateQuery_def newsQuery_def)
qed

section \<open>Properties of the portfolio fetcher\<close>

lemma find_as_filter:
  "find P xs = (case filter P xs of [] \<Rightarrow> None | x # ys \<Rightarrow> Some x)"
  by (induction xs) simp_all

lemma weightOf_position:
  "weightOf ps ts (PositionHolding p r) =
     (if positionInstrumentId p = 0 then JsonAbsent
      else firstPositionWeight ps (positionInstrumentId p))"
  by (simp add: firstPositionWeight_def find_as_filter split: list.splits)

lemma weightOf_trade:
  "weightOf ps ts (TradeHolding t r) = firstTradeWeight ts (parentUsername t)"
  by (simp add: firstTradeWeight_def find_as_filter split: list.splits)

lemma firstPositionWeight_own:
  "distinct (map positionInstrumentId ps) \<Longrightarrow> p \<in> set ps \<Longrightarrow>
     firstPositionWeight ps (positionInstrumentId p) = valuePctUnrealized p"
proof (induction ps)
  case Nil
  then show ?case by simp
next
  case (Cons a ps)
  show ?case
  proof (cases "p = a")
    case True
    then show ?thesis by (simp add: firstPositionWeight_def)
  next
    case False
    with Cons.prems have p: "p \<in> set ps" by simp
    from Cons.prems have "positionInstrumentId a \<notin> positionInstrumentId ` set ps" by simp
    with p have ne: "positionInstrumentId a \<noteq> positionInstrumentId p" by blast
    from Cons.prems have "distinct (map positionInstrumentId ps)" by simp
    from Cons.IH [OF this p] ne show ?thesis by (simp add: firstPositionWeight_def)
  qed
qed

lemma firstTradeWeight_own:
  "distinct (map parentUsername ts) \<Longrightarrow> t \<in> set ts \<Longrightarrow>
     firstTradeWeight ts (parentUsername t) = tradeValuePctUnrealized t"
proof (induction ts)
  case Nil
  then show ?case by simp
next
  case (Cons a ts)
  show ?case
  proof (cases "t = a")
    case True
    then show ?thesis by (simp add: firstTradeWeight_def)
  next
    case False
    with Cons.prems have p: "t \<in> set ts" by simp
    from Cons.prems have "parentUsername a \<notin> parentUsername ` set ts" by simp
    with p have ne: "parentUsername a \<noteq> parentUsername t" by blast
    from Cons.prems have "distinct (map parentUsername ts)" by simp
    from Cons.IH [OF this p] ne show ?thesis by (simp add: firstTradeWeight_def)
  qed
qed

lemma portfolioEntries_own_weights:
  assumes "distinct (map positionInstrumentId ps)" and "0 \<notin> set (map positionInstrumentId ps)"
    and "distinct (map parentUsername ts)"
  shows "map portfolioWeight (portfolioEntries src ps ts) =
           map valuePctUnrealized ps @ map tradeValuePctUnrealized ts"
proof -
  have a: "(if positionInstrumentId p = 0 then JsonAbsent
            else firstPositionWeight ps (positionInstrumentId p)) = valuePctUnrealized p"
    if "p \<in> set ps" for p
    using that assms(2) firstPositionWeight_own [OF assms(1) that] by auto
  have b: "firstTradeWeight ts (parentUsername t) = tradeValuePctUnrealized t"
    if "t \<in> set ts" for t
    using that by (rule firstTradeWeight_own [OF assms(3)])
  show ?thesis
    using a b by (simp add: portfolioEntries_def comp_def)
qed

lemma aboveWeight_number: "aboveWeight m e \<Longrightarrow> weightOrZero e > m"
  by (cases "portfolioWeight e") (simp_all add: aboveWeight_def weightOrZero_def)

lemma aboveWeight_real_number:
  "aboveWeight m e \<Longrightarrow> 0 \<le> m \<Longrightarrow> \<exists>v. portfolioWeight e = JsonNumber v \<and> v > m"
  by (cases "portfolioWeight e") (simp_all add: aboveWeight_def)

lemma ranked_weights:
  assumes "entries = take n (sort_key (\<lambda>e. - weightOrZero e) (filter (aboveWeight m) xs))"
  shows "list_all (\<lambda>e. weightOrZero e > m) entries \<and>
         (0 \<le> m \<longrightarrow> list_all (\<lambda>e. \<exists>v. portfolioWeight e = JsonNumber v \<and> v > m) entries) \<and>
         sorted_wrt (\<ge>) (map weightOrZero entries) \<and>
         length entries \<le> n"
proof -
  have sub: "set entries \<subseteq> {e \<in> set xs. aboveWeight m e}"
    unfolding assms using set_take_subset [of n] by fastforce
  have each: "aboveWeight m e" if "e \<in> set entries" for e
    using that sub by blast
  from each have 1: "list_all (\<lambda>e. weightOrZero e > m) entries"
    by (simp add: list_all_iff aboveWeight_number)
  from each have 2: "0 \<le> m \<longrightarrow>
      list_all (\<lambda>e. \<exists>v. portfolioWeight e = JsonNumber v \<and> v > m) entries"
    by (simp add: list_all_iff aboveWeight_real_number)
  have "sorted (map (\<lambda>e. - weightOrZero e)
                 (sort_key (\<lambda>e. - weightOrZero e) (filter (aboveWeight m) xs)))"
    by (rule sorted_sort_key)
  then have "sorted_wrt (\<lambda>a b. - weightOrZero a \<le> - weightOrZero b)
                 (sort_key (\<lambda>e. - weightOrZero e) (filter (aboveWeight m) xs))"
    by (simp add: sorted_wrt_map)
  then have "sorted_wrt (\<lambda>a b. - weightOrZero a \<le> - weightOrZero b) entries"
    unfolding assms by (rule sorted_wrt_take)
  then have 3: "sorted_wrt (\<ge>) (map weightOrZero entries)"
    by (simp add: sorted_wrt_map)
  have 4: "length entries \<le> n" unfolding assms by simp
  from 1 2 3 4 show ?thesis by blast
qed

lemma getUserPortfolio_ranked:
  assumes "username \<noteq> []" and "portfolioSummary src username = Inr summary"
    and "positions summary = Some ps" and "socialTrades summary = Some ts"
    and "\<not> enrichmentError src ps ts"
  shows "getUserPortfolio src username minW maxP =
           Inr (map Entry (take maxP (sort_key (\<lambda>e. - weightOrZero e)
                  (filter (aboveWeight minW) (portfolioEntries src ps ts)))))"
proof -
  have "map (\<lambda>h. \<lparr>holding = h, portfolioWeight = weightOf ps ts h\<rparr>)
          (map (\<lambda>p. PositionHolding p
                  (orElse (findRow (fundamentals_view src (map positionInstrumentId ps)) p)
                     (orElse (findRow (instruments src (map positionInstrumentId ps)) p)
                        (findRow (etf_fundamentals_view src (map positionInstrumentId ps)) p)))) ps @
           map (\<lambda>t. TradeHolding t
                  (findInvestor (popular_investors_fundamentals src (map parentUsername ts)) t)) ts) =
        portfolioEntries src ps ts"
    by (simp add: portfolioEntries_def comp_def weightOf_position weightOf_trade
        del: weightOf.simps)
  with assms show ?thesis
    by (simp add: getUserPortfolio_def enrichmentError_def Let_def)
qed

text \<open>
  C9. With an empty user name the fetch returns the empty array. With a summary that has
  no positions it returns the one-element array holding the "no portfolio data" string.
  With positions and copy relationships present it returns the empty array when some
  enrichment query reports an error. Otherwise it returns the entries of the portfolio
  (\<open>portfolioEntries\<close>: one per position, then one per copy relationship, each with
  the weight the summary holds for it) that pass the weight comparison, stably sorted by
  descending weight and cut to the first \<open>maxPositions\<close>. Every returned weight is
  strictly above the threshold as a number, the weights descend, and there are at most
  \<open>maxPositions\<close> entries; with a threshold that is not negative (the default \<open>0.3\<close>
  is such) every returned weight is a JSON number. When the instrument ids are distinct
  and non-zero and the parent user names are distinct, the weight of an entry is the
  \<^verbatim>\<open>valuePctUnrealized\<close> of its own position or copy relationship.
\<close>

theorem getUserPortfolio_spec:
  "getUserPortfolio src [] minW maxP = Inr [] \<and>
   (username \<noteq> [] \<and> portfolioSummary src username = Inr summary \<and>
    positions summary = None \<longrightarrow>
      getUserPortfolio src username minW maxP = Inr [NoDataNote noPortfolioText]) \<and>
   (username \<noteq> [] \<and> portfolioSummary src username = Inr summary \<and>
    positions summary = Some ps \<and> socialTrades summary = Some ts \<longrightarrow>
      (if enrichmentError src ps ts
       then getUserPortfolio src username minW maxP = Inr []
       else (let ranked = take maxP (sort_key (\<lambda>e. - weightOrZero e)
                            (filter (aboveWeight minW) (portfolioEntries src ps ts)))
             in getUserPortfolio src username minW maxP = Inr (map Entry ranked) \<and>
                list_all (\<lambda>e. weightOrZero e > minW) ranked \<and>
                (0 \<le> minW \<longrightarrow>
                   list_all (\<lambda>e. \<exists>v. portfolioWeight e = JsonNumber v \<and> v > minW) ranked) \<and>
                sorted_wrt (\<ge>) (map weightOrZero ranked) \<and>
                length ranked \<le> maxP))) \<and>
   (distinct (map positionInstrumentId ps) \<and> 0 \<notin> set (map positionInstrumentId ps) \<and>
    distinct (map parentUsername ts) \<longrightarrow>
      map portfolioWeight (portfolioEntries src ps ts) =
        map valuePctUnrealized ps @ map tradeValuePctUnrealized ts)"
proof (intro conjI impI)
  show "getUserPortfolio src [] minW maxP = Inr []"
    by (simp add: getUserPortfolio_def)
next
  assume "username \<noteq> [] \<and> portfolioSummary src username = Inr summary \<and>
    positions summary = None"
  then show "getUserPortfolio src username minW maxP = Inr [NoDataNote noPortfolioText]"
    by (simp add: getUserPortfolio_def)
next
  assume h: "username \<noteq> [] \<and> portfolioSummary src username = Inr summary \<and>
    positions summary = Some ps \<and> socialTrades summary = Some ts"
  show "if enrichmentError src ps ts
       then getUserPortfolio src username minW maxP = Inr []
       else (let ranked = take maxP (sort_key (\<lambda>e. - weightOrZero e)
                            (filter (aboveWeight minW) (portfolioEntries src ps ts)))
             in getUserPortfolio src username minW maxP = Inr (map Entry ranked) \<and>
                list_all (\<lambda>e. weightOrZero e > minW) ranked \<and>
                (0 \<le> minW \<longrightarrow>
                   list_all (\<lambda>e. \<exists>v. portfolioWeight e = JsonNumber v \<and> v > minW) ranked) \<and>
                sorted_wrt (\<ge>) (map weightOrZero ranked) \<and>
                length ranked \<le> maxP)"
  proof (cases "enrichmentError src ps ts")
    case True
    with h show ?thesis
      by (auto simp: getUserPortfolio_def enrichmentError_def Let_def)
  next
    case False
    define ranked where "ranked = take maxP (sort_key (\<lambda>e. - weightOrZero e)
                            (filter (aboveWeight minW) (portfolioEntries src ps ts)))"
    from h have h1: "username \<noteq> []" and h2: "portfolioSummary src username = Inr summary"
      and h3: "positions summary = Some ps" and h4: "socialTrades summary = Some ts"
      by blast+
    have r: "getUserPortfolio src username minW maxP = Inr (map Entry ranked)"
      unfolding ranked_def by (rule getUserPortfolio_ranked [OF h1 h2 h3 h4 False])
    from r ranked_weights [OF ranked_def] False show ?thesis
      unfolding Let_def ranked_def [symmetric] by simp
  qed
next
  assume "distinct (map positionInstrumentId ps) \<and> 0 \<notin> set (map positionInstrumentId ps) \<and>
    distinct (map parentUsername ts)"
  then show "map portfolioWeight (portfolioEntries src ps ts) =
        map valuePctUnrealized ps @ map tradeValuePctUnrealized ts"
    using portfolioEntries_own_weights by blast
qed

lemma sample_entries:
  "portfolioEntries sampleSources samplePositions sampleTrades =
     [positionEntry 1001 (JsonNumber 30), positionEntry 1002 (JsonNumber (1 / 5)),
      positionEntry 1003 (JsonNumber 50), positionEntry 1004 JsonNull,
      positionEntry 1005 JsonAbsent, tradeEntry ''bob'' (JsonNumber 40)]"
  by (simp add: portfolioEntries_def sampleSources_def noSources_def samplePositions_def
      sampleTrades_def positionEntry_def tradeEntry_def findRow_def findInvestor_def
      orElse_def firstPositionWeight_def firstTradeWeight_def)

lemma sample_ranked_default:
  "take 50 (sort_key (\<lambda>e. - weightOrZero e) (filter (aboveWeight (3 / 10))
      (portfolioEntries sampleSources samplePositions sampleTrades))) =
     [positionEntry 1003 (JsonNumber 50), tradeEntry ''bob'' (JsonNumber 40),
      positionEntry 1001 (JsonNumber 30)]"
  unfolding sample_entries
  by (simp add: aboveWeight_def weightOrZero_def positionEntry_def tradeEntry_def)

lemma sample_ranked_capped:
  "take 2 (sort_key (\<lambda>e. - weightOrZero e) (filter (aboveWeight (3 / 10))
      (portfolioEntries sampleSources samplePositions sampleTrades))) =
     [positionEntry 1003 (JsonNumber 50), tradeEntry ''bob'' (JsonNumber 40)]"
  unfolding sample_entries
  by (simp add: aboveWeight_def weightOrZero_def positionEntry_def tradeEntry_def)

lemma sample_ranked_negative:
  "take 50 (sort_key (\<lambda>e. - weightOrZero e) (filter (aboveWeight (- 1))
      (portfolioEntries sampleSources samplePositions sampleTrades))) =
     [positionEntry 1003 (JsonNumber 50), tradeEntry ''bob'' (JsonNumber 40),
      positionEntry 1001 (JsonNumber 30), positionEntry 1002 (JsonNumber (1 / 5)),
      positionEntry 1004 JsonNull]"
  unfolding sample_entries
  by (simp add: aboveWeight_def weightOrZero_def positionEntry_def tradeEntry_def)

text \<open>
  On the sample portfolio: the default threshold drops the weights \<open>1/5\<close>,
  \<^verbatim>\<open>null\<close> and the missing one; a cap of two keeps the two heaviest; and with the
  threshold \<open>-1\<close> the \<^verbatim>\<open>null\<close> weight is kept, since it compares as \<open>0\<close>.
\<close>

theorem getUserPortfolio_spec_witness:
  "getUserPortfolio sampleSources [] (3 / 10) 50 = Inr [] \<and>
   getUserPortfolio noSources ''ann'' (3 / 10) 50 = Inr [NoDataNote noPortfolioText] \<and>
   getUserPortfolio brokenSources ''ann'' (3 / 10) 50 = Inr [] \<and>
   getUserPortfolio sampleSources ''ann'' (3 / 10) 50 =
     Inr (map Entry [positionEntry 1003 (JsonNumber 50), tradeEntry ''bob'' (JsonNumber 40),
                     positionEntry 1001 (JsonNumber 30)]) \<and>
   getUserPortfolio sampleSources ''ann'' (3 / 10) 2 =
     Inr (map Entry [positionEntry 1003 (JsonNumber 50), tradeEntry ''bob'' (JsonNumber 40)]) \<and>
   getUserPortfolio sampleSources ''ann'' (- 1) 50 =
     Inr (map Entry [positionEntry 1003 (JsonNumber 50), tradeEntry ''bob'' (JsonNumber 40),
                     positionEntry 1001 (JsonNumber 30), positionEntry 1002 (JsonNumber (1 / 5)),
                     positionEntry 1004 JsonNull]) \<and>
   map portfolioWeight (portfolioEntries sampleSources samplePositions sampleTrades) =
     [JsonNumber 30, JsonNumber (1 / 5), JsonNumber 50, JsonNull, JsonAbsent, JsonNumber 40]"
proof -
  have a: "''ann'' \<noteq> [] \<and>
           portfolioSummary noSources ''ann'' = Inr \<lparr>positions = None, socialTrades = None\<rparr> \<and>
           positions \<lparr>positions = None, socialTrades = None\<rparr> = None"
    by (simp add: noSources_def)
  have b: "''ann'' \<noteq> [] \<and> portfolioSummary brokenSources ''ann'' = Inr sampleSummary \<and>
           positions sampleSummary = Some samplePositions \<and>
           socialTrades sampleSummary = Some sampleTrades"
    by (simp add: brokenSources_def sampleSources_def sampleSummary_def)
  have b': "enrichmentError brokenSources samplePositions sampleTrades"
    by (simp add: enrichmentError_def brokenSources_def)
  have c: "''ann'' \<noteq> [] \<and> portfolioSummary sampleSources ''ann'' = Inr sampleSummary \<and>
           positions sampleSummary = Some samplePositions \<and>
           socialTrades sampleSummary = Some sampleTrades"
    by (simp add: sampleSources_def sampleSummary_def)
  have c': "\<not> enrichmentError sampleSources samplePositions sampleTrades"
    by (simp add: enrichmentError_def sampleSources_def noSources_def)
  have d: "distinct (map positionInstrumentId samplePositions) \<and>
           0 \<notin> set (map positionInstrumentId samplePositions) \<and>
           distinct (map parentUsername sampleTrades)"
    by (simp add: samplePositions_def sampleTrades_def)
  have 1: "getUserPortfolio sampleSources [] (3 / 10) 50 = Inr []"
    using getUserPortfolio_spec [of sampleSources "3 / 10" 50 "''ann''" sampleSummary
            samplePositions sampleTrades]
    by blast
  have 2: "getUserPortfolio noSources ''ann'' (3 / 10) 50 = Inr [NoDataNote noPortfolioText]"
    using getUserPortfolio_spec [of noSources "3 / 10" 50 "''ann''"
            "\<lparr>positions = None, socialTrades = None\<rparr>" "[]" "[]"] a
    by blast
  have "if enrichmentError brokenSources samplePositions sampleTrades
        then getUserPortfolio brokenSources ''ann'' (3 / 10) 50 = Inr []
        else (let ranked = take 50 (sort_key (\<lambda>e. - weightOrZero e)
                            (filter (aboveWeight (3 / 10))
                               (portfolioEntries brokenSources samplePositions sampleTrades)))
             in getUserPortfolio brokenSources ''ann'' (3 / 10) 50 = Inr (map Entry ranked) \<and>
                list_all (\<lambda>e. weightOrZero e > 3 / 10) ranked \<and>
                ((0::rat) \<le> 3 / 10 \<longrightarrow>
                   list_all (\<lambda>e. \<exists>v. portfolioWeight e = JsonNumber v \<and> v > 3 / 10) ranked) \<and>
                sorted_wrt (\<ge>) (map weightOrZero ranked) \<and>
                length ranked \<le> 50)"
    using getUserPortfolio_spec [of brokenSources "3 / 10" 50 "''ann''" sampleSummary
            samplePositions sampleTrades] b
    by blast
  with b' have 3: "getUserPortfolio brokenSources ''ann'' (3 / 10) 50 = Inr []"
    by (simp only: if_True)
  have ranked: "getUserPortfolio sampleSources ''ann'' m n =
           Inr (map Entry (take n (sort_key (\<lambda>e. - weightOrZero e) (filter (aboveWeight m)
                  (portfolioEntries sampleSources samplePositions sampleTrades)))))" for m n
  proof -
    have "if enrichmentError sampleSources samplePositions sampleTrades
        then getUserPortfolio sampleSources ''ann'' m n = Inr []
        else (let ranked = take n (sort_key (\<lambda>e. - weightOrZero e)
                            (filter (aboveWeight m)
                               (portfolioEntries sampleSources samplePositions sampleTrades)))
             in getUserPortfolio sampleSources ''ann'' m n = Inr (map Entry ranked) \<and>
                list_all (\<lambda>e. weightOrZero e > m) ranked \<and>
                (0 \<le> m \<longrightarrow>
                   list_all (\<lambda>e. \<exists>v. portfolioWeight e = JsonNumber v \<and> v > m) ranked) \<and>
                sorted_wrt (\<ge>) (map weightOrZero ranked) \<and>
                length ranked \<le> n)"
      using getUserPortfolio_spec [of sampleSources m n "''ann''" sampleSummary
              samplePositions sampleTrades] c
      by blast
    with c' show ?thesis by (simp only: if_False Let_def)
  qed
  have 4: "getUserPortfolio sampleSources ''ann'' (3 / 10) 50 =
     Inr (map Entry [positionEntry 1003 (JsonNumber 50), tradeEntry ''bob'' (JsonNumber 40),
                     positionEntry 1001 (JsonNumber 30)])"
    unfolding ranked sample_ranked_default ..
  have 5: "getUserPortfolio sampleSources ''ann'' (3 / 10) 2 =
     Inr (map Entry [positionEntry 1003 (JsonNumber 50), tradeEntry ''bob'' (JsonNumber 40)])"
    unfolding ranked sample_ranked_capped ..
  have 6: "getUserPortfolio sampleSources ''ann'' (- 1) 50 =
     Inr (map Entry [positionEntry 1003 (JsonNumber 50), tradeEntry ''bob'' (JsonNumber 40),
                     positionEntry 1001 (JsonNumber 30), positionEntry 1002 (JsonNumber (1 / 5)),
                     positionEntry 1004 JsonNull])"
    unfolding ranked sample_ranked_negative ..
  have "map portfolioWeight (portfolioEntries sampleSources samplePositions sampleTrades) =
          map valuePctUnrealized samplePositions @ map tradeValuePctUnrealized sampleTrades"
    using getUserPortfolio_spec [of sampleSources "3 / 10" 50 "''ann''" sampleSummary
            samplePositions sampleTrades] d
    by blast
  then have 7: "map portfolioWeight (portfolioEntries sampleSources samplePositions sampleTrades) =
     [JsonNumber 30, JsonNumber (1 / 5), JsonNumber 50, JsonNull, JsonAbsent, JsonNumber 40]"
    by (simp add: samplePositions_def sampleTrades_def)
  from 1 2 3 4 5 6 7 show ?thesis by blast
qed

section \<open>Properties of the identifier quoter\<close>

lemma isIdentStart_isWordChar: "isIdentStart c \<Longrightarrow> isWordChar c"
  by (auto simp: isIdentStart_def isWordChar_def)

lemma not_word_marks [simp]: "\<not> isWordChar dq" "\<not> isWordChar sq" "\<not> isWordChar pct"
  by (simp_all add: isWordChar_def)

lemma replaceAll2_skip: "x \<noteq> a \<Longrightarrow> replaceAll2 a b r (x # ys) = x # replaceAll2 a b r ys"
  by (cases ys) simp_all

lemma replaceAll2_skip_sym: "a \<noteq> x \<Longrightarrow> replaceAll2 a b r (x # ys) = x # replaceAll2 a b r ys"
  by (cases ys) auto

lemma replaceAll2_skip_second:
  "ys = [] \<or> hd ys \<noteq> b \<Longrightarrow> replaceAll2 a b r (x # ys) = x # replaceAll2 a b r ys"
  by (cases ys) auto

lemma replaceAll2_absent_first: "a \<notin> set s \<Longrightarrow> replaceAll2 a b r s = s"
  by (induction s) (simp_all add: replaceAll2_skip_sym)

lemma replaceAll2_absent_second: "b \<notin> set s \<Longrightarrow> replaceAll2 a b r s = s"
proof (induction s)
  case Nil
  then show ?case by simp
next
  case (Cons x s)
  then have "s = [] \<or> hd s \<noteq> b" by (cases s) auto
  with Cons show ?case by (simp add: replaceAll2_skip_second)
qed

lemma replaceAll2_append: "a \<notin> set w \<Longrightarrow> replaceAll2 a b r (w @ ys) = w @ replaceAll2 a b r ys"
  by (induction w) (simp_all add: replaceAll2_skip_sym)

lemma quoteBareTokens_flag:
  "s = [] \<or> \<not> isWordChar (hd s) \<Longrightarrow> quoteBareTokens p s = quoteBareTokens False s"
  by (cases s) (auto dest: isIdentStart_isWordChar)

lemma quoteBareTokens_run:
  "list_all isWordChar w \<Longrightarrow> quoteBareTokens True (w @ rest) = w @ quoteBareTokens True rest"
  by (induction w) simp_all

lemma takeWhile_all: "list_all P (takeWhile P xs)"
  by (induction xs) simp_all

lemma dropWhile_start: "dropWhile P xs = [] \<or> \<not> P (hd (dropWhile P xs))"
  by (induction xs) simp_all

text \<open>A run of word characters at a word boundary: its image and the rest of the scan.\<close>

lemma quoteBareTokens_word:
  assumes "isWordChar c"
  shows "quoteBareTokens False (c # cs) =
           (if isIdentStart c then quoteMatch (c # takeWhile isWordChar cs)
            else c # takeWhile isWordChar cs) @
           quoteBareTokens False (dropWhile isWordChar cs)"
proof -
  have flag: "quoteBareTokens True (dropWhile isWordChar cs) =
              quoteBareTokens False (dropWhile isWordChar cs)"
    by (rule quoteBareTokens_flag) (rule dropWhile_start)
  show ?thesis
  proof (cases "isIdentStart c")
    case True
    then show ?thesis using flag by simp
  next
    case False
    have "quoteBareTokens True cs =
            quoteBareTokens True (takeWhile isWordChar cs @ dropWhile isWordChar cs)"
      by simp
    also have "\<dots> = takeWhile isWordChar cs @ quoteBareTokens True (dropWhile isWordChar cs)"
      by (rule quoteBareTokens_run) (rule takeWhile_all)
    finally show ?thesis using False assms flag by simp
  qed
qed

lemma quoteBareTokens_other:
  "\<not> isWordChar c \<Longrightarrow> quoteBareTokens p (c # cs) = c # quoteBareTokens False cs"
  by (auto dest: isIdentStart_isWordChar)

lemma set_quoteMatch: "set (quoteMatch w) \<subseteq> insert dq (set w)"
  by (auto simp: quoteMatch_def)

lemma set_quoteBareTokens: "set (quoteBareTokens p s) \<subseteq> insert dq (set s)"
proof (induction p s rule: quoteBareTokens.induct)
  case (1 prevWord)
  then show ?case by simp
next
  case (2 prevWord c cs)
  show ?case
  proof (cases "isIdentStart c \<and> \<not> prevWord")
    case True
    have a: "set (quoteMatch (c # takeWhile isWordChar cs)) \<subseteq> insert dq (set (c # cs))"
      using set_quoteMatch [of "c # takeWhile isWordChar cs"] set_takeWhileD [of _ isWordChar cs]
      by auto
    have b: "set (quoteBareTokens True (dropWhile isWordChar cs)) \<subseteq> insert dq (set (c # cs))"
      using "2.IH"(1) [OF True] set_dropWhileD [of _ isWordChar cs] by auto
    from a b True show ?thesis by simp
  next
    case False
    with "2.IH"(2) [OF False] show ?thesis by auto
  qed
qed

lemma word_run_has_no_marks:
  "list_all isWordChar w \<Longrightarrow> dq \<notin> set w \<and> sq \<notin> set w \<and> pct \<notin> set w"
  by (induction w) auto

lemma wellQuoted_quoted:
  assumes "wellQuoted (dq # cs)"
  shows "\<exists>rest. dropWhile isWordChar cs = dq # rest \<and> takeWhile isWordChar cs \<noteq> [] \<and>
                plainStart rest \<and> wellQuoted rest"
proof (cases "dropWhile isWordChar cs")
  case Nil
  with assms show ?thesis by (simp del: wellQuoted.simps add: wellQuoted.simps(2) [of dq cs])
next
  case (Cons e rest)
  with assms have "e = dq \<and> takeWhile isWordChar cs \<noteq> [] \<and>
             (case rest of [] \<Rightarrow> True | d # ds \<Rightarrow> d \<noteq> dq) \<and> wellQuoted rest"
    by (simp del: wellQuoted.simps add: wellQuoted.simps(2) [of dq cs])
  with Cons show ?thesis by (simp del: wellQuoted.simps add: plainStart_def)
qed

lemma wellQuoted_word:
  assumes "wellQuoted (c # cs)" and "isWordChar c"
  shows "(isIdentStart c \<longrightarrow> isReserved (c # takeWhile isWordChar cs)) \<and>
         wellQuoted (dropWhile isWordChar cs)"
proof -
  from assms(2) have "c \<noteq> dq" by auto
  with assms show ?thesis
    by (simp del: wellQuoted.simps add: wellQuoted.simps(2) [of c cs])
qed

lemma wellQuoted_other:
  assumes "wellQuoted (c # cs)" and "c \<noteq> dq" and "\<not> isWordChar c"
  shows "c \<noteq> sq \<and> c \<noteq> pct \<and> wellQuoted cs"
  using assms by (simp del: wellQuoted.simps add: wellQuoted.simps(2) [of c cs])



lemma marks_behind_run:
  assumes "sq \<notin> set (dropWhile isWordChar cs)" and "pct \<notin> set (dropWhile isWordChar cs)"
  shows "sq \<notin> set cs \<and> pct \<notin> set cs"
proof -
  have mem: "x \<in> set (takeWhile isWordChar cs) \<or> x \<in> set (dropWhile isWordChar cs)"
    if "x \<in> set cs" for x
  proof -
    from that have "x \<in> set (takeWhile isWordChar cs @ dropWhile isWordChar cs)"
      by (simp only: takeWhile_dropWhile_id)
    then show ?thesis by (simp only: set_append Un_iff)
  qed
  have word: "isWordChar x" if "x \<in> set (takeWhile isWordChar cs)" for x
    using that by (rule set_takeWhileD [THEN conjunct2])
  show ?thesis
  proof (intro conjI notI)
    assume "sq \<in> set cs"
    from mem [OF this] assms(1) have "sq \<in> set (takeWhile isWordChar cs)" by blast
    from word [OF this] show False by simp
  next
    assume "pct \<in> set cs"
    from mem [OF this] assms(2) have "pct \<in> set (takeWhile isWordChar cs)" by blast
    from word [OF this] show False by simp
  qed
qed

lemma wellQuoted_no_literals: "wellQuoted x \<Longrightarrow> sq \<notin> set x \<and> pct \<notin> set x"
proof (induction x rule: wellQuoted.induct)
  case 1
  show ?case by simp
next
  case (2 c cs)
  consider (quoted) "c = dq" | (word) "c \<noteq> dq" "isWordChar c" | (other) "c \<noteq> dq" "\<not> isWordChar c"
    by blast
  then show ?case
  proof cases
    case quoted
    with "2.prems" wellQuoted_quoted [of cs] obtain rest where
      d: "dropWhile isWordChar cs = dq # rest" and wr: "wellQuoted rest"
      by blast
    from "2.IH"(1) [OF quoted d wr] have "sq \<notin> set rest \<and> pct \<notin> set rest" .
    then have "sq \<notin> set (dropWhile isWordChar cs) \<and> pct \<notin> set (dropWhile isWordChar cs)"
      unfolding d by simp
    then have "sq \<notin> set cs \<and> pct \<notin> set cs" using marks_behind_run by blast
    then show ?thesis unfolding quoted by auto
  next
    case word
    from wellQuoted_word [OF "2.prems" word(2)]
    have wr: "wellQuoted (dropWhile isWordChar cs)" by blast
    from "2.IH"(2) [OF word wr] have "sq \<notin> set cs \<and> pct \<notin> set cs"
      using marks_behind_run by blast
    moreover from word(2) have "c \<noteq> sq \<and> c \<noteq> pct" by auto
    ultimately show ?thesis by auto
  next
    case other
    from wellQuoted_other [OF "2.prems" other]
    have wr: "wellQuoted cs" and "c \<noteq> sq" "c \<noteq> pct" by blast+
    with "2.IH"(3) [OF other] show ?thesis by auto
  qed
qed

lemma quoteMatch_reserved: "isReserved w \<Longrightarrow> quoteMatch w = w"
  by (simp add: quoteMatch_def isReserved_def)

lemma quoteMatch_cases: "quoteMatch w = w \<or> quoteMatch w = dq # w @ [dq]"
  by (simp add: quoteMatch_def)

lemma plainStart_preserved:
  assumes "wellQuoted s" and "plainStart s"
  shows "plainStart (quoteBareTokens False s)"
proof (cases s)
  case Nil
  then show ?thesis by (simp add: plainStart_def)
next
  case (Cons c cs)
  with assms(2) have c: "c \<noteq> dq" by (simp add: plainStart_def)
  show ?thesis
  proof (cases "isWordChar c")
    case True
    with assms(1) Cons wellQuoted_word [of c cs]
    have "isIdentStart c \<longrightarrow> isReserved (c # takeWhile isWordChar cs)"
      by blast
    then have "(if isIdentStart c then quoteMatch (c # takeWhile isWordChar cs)
                else c # takeWhile isWordChar cs) = c # takeWhile isWordChar cs"
      by (simp add: quoteMatch_reserved)
    with quoteBareTokens_word [OF True, of cs] Cons c show ?thesis
      by (simp add: plainStart_def del: quoteBareTokens.simps)
  next
    case False
    with quoteBareTokens_other [OF False, of False cs] Cons c show ?thesis
      by (simp add: plainStart_def del: quoteBareTokens.simps)
  qed
qed

lemma collapse_single:
  "plainStart ys \<Longrightarrow> replaceAll2 dq dq [dq] (dq # ys) = dq # replaceAll2 dq dq [dq] ys"
  by (cases ys) (simp_all add: plainStart_def)

lemma collapse_pair:
  "replaceAll2 dq dq [dq] (dq # dq # ys) = dq # replaceAll2 dq dq [dq] ys"
  by simp

text \<open>The image of a quoted identifier: the quotes around a reserved word or a run that
  begins with a digit stay single, the others are doubled.\<close>

lemma quoteBareTokens_quoted:
  assumes w0: "isWordChar w0" and dw: "dropWhile isWordChar cs' = dq # rest"
  shows "\<exists>T. (T = w0 # takeWhile isWordChar cs' \<or>
              T = dq # (w0 # takeWhile isWordChar cs') @ [dq]) \<and>
             quoteBareTokens False (dq # w0 # cs') = dq # T @ dq # quoteBareTokens False rest"
proof -
  let ?w = "w0 # takeWhile isWordChar cs'"
  define T where "T = (if isIdentStart w0 then quoteMatch ?w else ?w)"
  have a: "quoteBareTokens False (w0 # cs') = T @ quoteBareTokens False (dropWhile isWordChar cs')"
    unfolding T_def by (rule quoteBareTokens_word [OF w0])
  have b: "quoteBareTokens False (dq # rest) = dq # quoteBareTokens False rest"
    by (rule quoteBareTokens_other) (rule not_word_marks(1))
  have c: "quoteBareTokens False (dq # w0 # cs') = dq # quoteBareTokens False (w0 # cs')"
    by (rule quoteBareTokens_other) (rule not_word_marks(1))
  have q: "quoteBareTokens False (dq # w0 # cs') = dq # T @ dq # quoteBareTokens False rest"
    unfolding c a dw b ..
  have "T = ?w \<or> T = dq # ?w @ [dq]"
    unfolding T_def using quoteMatch_cases [of ?w] by (cases "isIdentStart w0") simp_all
  with q show ?thesis by blast
qed

lemma collapse_quoted:
  assumes w0: "isWordChar w0" and dw: "dropWhile isWordChar cs' = dq # rest"
    and ps: "plainStart rest" and wr: "wellQuoted rest"
    and ih: "replaceAll2 dq dq [dq] (quoteBareTokens False rest) = rest"
  shows "replaceAll2 dq dq [dq] (quoteBareTokens False (dq # w0 # cs')) = dq # w0 # cs'"
proof -
  let ?collapse = "replaceAll2 dq dq [dq]"
  let ?Y = "quoteBareTokens False rest"
  let ?w = "w0 # takeWhile isWordChar cs'"
  from quoteBareTokens_quoted [OF w0 dw] obtain T where
    T: "T = ?w \<or> T = dq # ?w @ [dq]" and
    q: "quoteBareTokens False (dq # w0 # cs') = dq # T @ dq # ?Y"
    by blast
  have pY: "plainStart ?Y" by (rule plainStart_preserved [OF wr ps])
  have "list_all isWordChar ?w" using w0 takeWhile_all [of isWordChar cs'] by simp
  then have wmarks: "dq \<notin> set ?w" using word_run_has_no_marks by blast
  have "takeWhile isWordChar cs' @ dq # rest = cs'"
    using takeWhile_dropWhile_id [of isWordChar cs'] unfolding dw .
  then have whole: "dq # ?w @ dq # rest = dq # w0 # cs'" by simp
  have w_plain: "plainStart (?w @ dq # ?Y)" using w0 by (auto simp: plainStart_def)
  from T have "?collapse (dq # T @ dq # ?Y) = dq # ?w @ dq # rest"
  proof
    assume T: "T = ?w"
    have "?collapse (dq # ?w @ dq # ?Y) = dq # ?collapse (?w @ dq # ?Y)"
      by (rule collapse_single [OF w_plain])
    also have "?collapse (?w @ dq # ?Y) = ?w @ ?collapse (dq # ?Y)"
      by (rule replaceAll2_append [OF wmarks])
    also have "?collapse (dq # ?Y) = dq # ?collapse ?Y"
      by (rule collapse_single [OF pY])
    finally show ?thesis unfolding T ih .
  next
    assume T: "T = dq # ?w @ [dq]"
    have "?collapse (dq # dq # ?w @ dq # dq # ?Y) = dq # ?collapse (?w @ dq # dq # ?Y)"
      by (rule collapse_pair)
    also have "?collapse (?w @ dq # dq # ?Y) = ?w @ ?collapse (dq # dq # ?Y)"
      by (rule replaceAll2_append [OF wmarks])
    also have "?collapse (dq # dq # ?Y) = dq # ?collapse ?Y"
      by (rule collapse_pair)
    finally have "?collapse (dq # dq # ?w @ dq # dq # ?Y) = dq # ?w @ dq # rest"
      unfolding ih .
    then show ?thesis unfolding T by simp
  qed
  then show ?thesis unfolding q whole .
qed

lemma collapse_word:
  assumes c: "isWordChar c"
    and res: "isIdentStart c \<longrightarrow> isReserved (c # takeWhile isWordChar cs)"
    and ih: "replaceAll2 dq dq [dq] (quoteBareTokens False (dropWhile isWordChar cs)) =
               dropWhile isWordChar cs"
  shows "replaceAll2 dq dq [dq] (quoteBareTokens False (c # cs)) = c # cs"
proof -
  let ?collapse = "replaceAll2 dq dq [dq]"
  let ?w = "c # takeWhile isWordChar cs"
  let ?Y = "quoteBareTokens False (dropWhile isWordChar cs)"
  have T: "(if isIdentStart c then quoteMatch ?w else ?w) = ?w"
    using res by (simp add: quoteMatch_reserved)
  have q: "quoteBareTokens False (c # cs) = ?w @ ?Y"
    using quoteBareTokens_word [OF c, of cs] unfolding T .
  have "list_all isWordChar ?w" using c takeWhile_all [of isWordChar cs] by simp
  then have wmarks: "dq \<notin> set ?w" using word_run_has_no_marks by blast
  have "?collapse (?w @ ?Y) = ?w @ ?collapse ?Y"
    by (rule replaceAll2_append [OF wmarks])
  then have "?collapse (quoteBareTokens False (c # cs)) = ?w @ dropWhile isWordChar cs"
    unfolding q ih .
  then show ?thesis by simp
qed

lemma collapse_other:
  assumes c: "\<not> isWordChar c" and nq: "c \<noteq> dq"
    and ih: "replaceAll2 dq dq [dq] (quoteBareTokens False cs) = cs"
  shows "replaceAll2 dq dq [dq] (quoteBareTokens False (c # cs)) = c # cs"
proof -
  have q: "quoteBareTokens False (c # cs) = c # quoteBareTokens False cs"
    by (rule quoteBareTokens_other [OF c])
  show ?thesis unfolding q replaceAll2_skip [OF nq] ih ..
qed

lemma collapse_fixes_wellQuoted:
  "wellQuoted x \<Longrightarrow> replaceAll2 dq dq [dq] (quoteBareTokens False x) = x"
proof (induction x rule: wellQuoted.induct)
  case 1
  show ?case by simp
next
  case (2 c cs)
  consider (quoted) "c = dq" | (word) "c \<noteq> dq" "isWordChar c" | (other) "c \<noteq> dq" "\<not> isWordChar c"
    by blast
  then show ?case
  proof cases
    case quoted
    with "2.prems" wellQuoted_quoted [of cs] obtain rest where
      d: "dropWhile isWordChar cs = dq # rest"
      and ne: "takeWhile isWordChar cs \<noteq> []"
      and ps: "plainStart rest"
      and wr: "wellQuoted rest"
      by blast
    have ih: "replaceAll2 dq dq [dq] (quoteBareTokens False rest) = rest"
      by (rule "2.IH"(1) [OF quoted d wr])
    from ne obtain w0 cs' where cs0: "cs = w0 # cs'" and w0: "isWordChar w0"
      by (cases cs) (auto split: if_splits)
    have dw: "dropWhile isWordChar cs' = dq # rest" using d w0 unfolding cs0 by simp
    show ?thesis unfolding quoted cs0 by (rule collapse_quoted [OF w0 dw ps wr ih])
  next
    case word
    from wellQuoted_word [OF "2.prems" word(2)]
    have wr: "wellQuoted (dropWhile isWordChar cs)"
      and res: "isIdentStart c \<longrightarrow> isReserved (c # takeWhile isWordChar cs)"
      by blast+
    have ih: "replaceAll2 dq dq [dq] (quoteBareTokens False (dropWhile isWordChar cs)) =
                dropWhile isWordChar cs"
      by (rule "2.IH"(2) [OF word wr])
    show ?thesis by (rule collapse_word [OF word(2) res ih])
  next
    case other
    from wellQuoted_other [OF "2.prems" other] have wr: "wellQuoted cs" by blast
    have ih: "replaceAll2 dq dq [dq] (quoteBareTokens False cs) = cs"
      by (rule "2.IH"(3) [OF other wr])
    show ?thesis by (rule collapse_other [OF other(2) other(1) ih])
  qed
qed

lemma unquoteWildcards_absent: "pct \<notin> set s \<Longrightarrow> unquoteWildcards s = s"
  by (induction s) auto

lemma unquoteLiterals_absent: "sq \<notin> set s \<Longrightarrow> unquoteLiterals s = s"
  by (induction s) auto

lemma enforceCaseSensitivity_fixes_wellQuoted:
  assumes "wellQuoted x"
  shows "enforceCaseSensitivity x = x"
proof -
  from wellQuoted_no_literals [OF assms] have sqx: "sq \<notin> set x" and pcx: "pct \<notin> set x"
    by blast+
  have nsq: "sq \<notin> set (quoteBareTokens False x)"
    using set_quoteBareTokens [of False x] sqx by auto
  have "replaceAll2 dq sq [sq] (replaceAll2 sq dq [sq] (quoteBareTokens False x)) =
               quoteBareTokens False x"
    unfolding replaceAll2_absent_first [OF nsq] replaceAll2_absent_second [OF nsq] ..
  then show ?thesis
    unfolding enforceCaseSensitivity_def
    by (simp only: collapse_fixes_wellQuoted [OF assms] unquoteWildcards_absent [OF pcx]
        unquoteLiterals_absent [OF sqx])
qed

text \<open>
  C8. On already-quoted input (\<open>wellQuoted\<close>: quoted identifiers, bare keywords and
  function names, separators, no single quote and no percent sign) the identifier quoter
  is idempotent; indeed it returns such a text unchanged.
\<close>

theorem enforceCaseSensitivity_idempotent:
  "wellQuoted x \<Longrightarrow>
     enforceCaseSensitivity (enforceCaseSensitivity x) = enforceCaseSensitivity x"
  by (simp only: enforceCaseSensitivity_fixes_wellQuoted)

lemma sample_wellQuoted:
  "wellQuoted (''SELECT '' @ [dq] @ ''name'' @ [dq] @ '', COUNT('' @ [dq] @ ''x'' @ [dq] @
               '') FROM '' @ [dq] @ ''t'' @ [dq] @ '' LIMIT 10'')"
  by code_simp

theorem enforceCaseSensitivity_idempotent_witness:
  "wellQuoted (''SELECT '' @ [dq] @ ''name'' @ [dq] @ '', COUNT('' @ [dq] @ ''x'' @ [dq] @
               '') FROM '' @ [dq] @ ''t'' @ [dq] @ '' LIMIT 10'') \<and>
   enforceCaseSensitivity (enforceCaseSensitivity
     (''SELECT '' @ [dq] @ ''name'' @ [dq] @ '', COUNT('' @ [dq] @ ''x'' @ [dq] @
      '') FROM '' @ [dq] @ ''t'' @ [dq] @ '' LIMIT 10'')) =
   enforceCaseSensitivity
     (''SELECT '' @ [dq] @ ''name'' @ [dq] @ '', COUNT('' @ [dq] @ ''x'' @ [dq] @
      '') FROM '' @ [dq] @ ''t'' @ [dq] @ '' LIMIT 10'')"
  using sample_wellQuoted enforceCaseSensitivity_idempotent [OF sample_wellQuoted] by blast

text \<open>
  Outside that class the quoter need not be idempotent: four double quotes in a row
  collapse to two, and those to one.
\<close>

lemma enforceCaseSensitivity_not_idempotent_on_quote_runs:
  "enforceCaseSensitivity (enforceCaseSensitivity [dq, dq, dq, dq]) \<noteq>
     enforceCaseSensitivity [dq, dq, dq, dq]"
  by code_simp

text \<open>
  C7. The example of the specification is handled: in
  \<^verbatim>\<open>WHERE name = 'select this'\<close> the identifier is quoted and the literal comes out
  as it went in. The last stage pairs single quotes from the left and skips an empty
  literal, so behind \<^verbatim>\<open>''\<close> the pairing is shifted by one quote: in
  \<^verbatim>\<open>SELECT a FROM t WHERE b = '' AND c = 'x y'\<close> the quotes are stripped from the
  text between the two literals (the identifier \<open>c\<close> loses them) and stay inside the
  literal, which comes out as \<^verbatim>\<open>'x" "y'\<close>.
\<close>

theorem literal_after_empty_literal_keeps_quotes:
  "enforceCaseSensitivity (''WHERE name = '' @ [sq] @ ''select this'' @ [sq]) =
     ''WHERE '' @ [dq] @ ''name'' @ [dq] @ '' = '' @ [sq] @ ''select this'' @ [sq] \<and>
   enforceCaseSensitivity
     (''SELECT a FROM t WHERE b = '' @ [sq, sq] @ '' AND c = '' @ [sq] @ ''x y'' @ [sq]) =
     ''SELECT '' @ [dq] @ ''a'' @ [dq] @ '' FROM '' @ [dq] @ ''t'' @ [dq] @ '' WHERE '' @
       [dq] @ ''b'' @ [dq] @ '' = '' @ [sq, sq] @ '' AND c = '' @
       [sq] @ ''x'' @ [dq] @ '' '' @ [dq] @ ''y'' @ [sq]"
  by code_simp

end
